theory Spec2Isabelle
  imports Complex_Main "HOL-Library.Sublist"
begin

section \<open>Go strings\<close>

text \<open>
  A Go string is a sequence of bytes; \<open>string\<close> (a list of 8-bit characters) is the same
  thing. The standard library functions the provider calls are written out here after
  their documentation: \<open>strings.Index(s, substr)\<close> is the index of the first instance of
  \<open>substr\<close> in \<open>s\<close>, or \<open>-1\<close> when there is none, and \<open>strings.Contains(s, substr)\<close> is
  \<open>Index(s, substr) >= 0\<close>.
\<close>

fun strings_Index :: "string \<Rightarrow> string \<Rightarrow> int" where
  "strings_Index [] substr = (if substr = [] then 0 else -1)"
| "strings_Index (c # t) substr =
     (if prefix substr (c # t) then 0
      else (let i = strings_Index t substr in if i = -1 then -1 else i + 1))"

declare strings_Index.simps(2) [simp del]

definition strings_Contains :: "string \<Rightarrow> string \<Rightarrow> bool" where
  "strings_Contains s substr = (strings_Index s substr \<ge> 0)"

text \<open>
  The slice expressions \<open>s[lo:]\<close> and \<open>s[lo:hi]\<close>. Go panics when the bounds are not
  \<open>0 \<le> lo \<le> hi \<le> len(s)\<close>; \<open>slice_ok\<close> is that check. The extractors below only slice
  at indices that \<open>strings.Index\<close> returned, and lemma \<open>extractor_slices_ok\<close> shows that
  these pass the check, so \<open>drop\<close> and \<open>take\<close> compute what the Go slices compute.
\<close>

definition slice_ok :: "string \<Rightarrow> int \<Rightarrow> int \<Rightarrow> bool" where
  "slice_ok s lo hi = (0 \<le> lo \<and> lo \<le> hi \<and> hi \<le> int (length s))"

definition slice_from :: "string \<Rightarrow> int \<Rightarrow> string" where
  "slice_from s lo = drop (nat lo) s"

definition slice :: "string \<Rightarrow> int \<Rightarrow> int \<Rightarrow> string" where
  "slice s lo hi = take (nat hi - nat lo) (drop (nat lo) s)"

section \<open>The configuration codec\<close>

text \<open>
  \<open>buildPipelineConfigXML\<close> is one \<open>fmt.Sprintf\<close> over a fixed template with two \<open>%s\<close>
  verbs: the text before the description, between description and script, and after the
  script.
\<close>

definition configXML_head :: string where
  \<open>configXML_head =
     ''<?xml version='1.1' encoding='UTF-8'?>\<newline>'' @
     ''<flow-definition plugin="workflow-job@1254.v3f669a_b_a_083a_">\<newline>'' @
     ''  <description>''\<close>

definition configXML_mid :: string where
  \<open>configXML_mid =
     ''</description>\<newline>'' @
     ''  <keepDependencies>false</keepDependencies>\<newline>'' @
     ''  <properties/>\<newline>'' @
     ''  <definition class="org.jenkinsci.plugins.workflow.cps.CpsFlowDefinition" plugin="workflow-cps@2807.v39e1503c779e">\<newline>'' @
     ''    <script><![CDATA[''\<close>

definition configXML_tail :: string where
  \<open>configXML_tail =
     '']]></script>\<newline>'' @
     ''    <sandbox>true</sandbox>\<newline>'' @
     ''  </definition>\<newline>'' @
     ''  <triggers/>\<newline>'' @
     ''  <disabled>false</disabled>\<newline>'' @
     ''</flow-definition>''\<close>

definition buildPipelineConfigXML :: "string \<Rightarrow> string \<Rightarrow> string" where
  "buildPipelineConfigXML description groovyScript =
     configXML_head @ description @ configXML_mid @ groovyScript @ configXML_tail"

text \<open>
  The two extractors return \<open>(string, error)\<close>: \<open>Inr\<close> the text between the delimiters,
  \<open>Inl\<close> the message given to \<open>fmt.Errorf\<close>.
\<close>

definition extractGroovyScriptFromXML :: "string \<Rightarrow> string + string" where
  "extractGroovyScriptFromXML xmlConfig =
     (let scriptStart = ''<script><![CDATA['';
          scriptEnd = '']]></script>'';
          startIndex = strings_Index xmlConfig scriptStart in
      if startIndex = -1 then Inl ''could not find start of Groovy script tag in XML''
      else
        let startIndex = startIndex + int (length scriptStart);
            endIndex = strings_Index (slice_from xmlConfig startIndex) scriptEnd in
        if endIndex = -1 then Inl ''could not find end of Groovy script tag in XML''
        else
          let endIndex = endIndex + startIndex in
          Inr (slice xmlConfig startIndex endIndex))"

definition extractDescriptionFromXML :: "string \<Rightarrow> string + string" where
  "extractDescriptionFromXML xmlConfig =
     (let descStart = ''<description>'';
          descEnd = ''</description>'';
          startIndex = strings_Index xmlConfig descStart in
      if startIndex = -1 then Inl ''could not find start of description tag in XML''
      else
        let startIndex = startIndex + int (length descStart);
            endIndex = strings_Index (slice_from xmlConfig startIndex) descEnd in
        if endIndex = -1 then Inl ''could not find end of description tag in XML''
        else
          let endIndex = endIndex + startIndex in
          Inr (slice xmlConfig startIndex endIndex))"

section \<open>Values of the plugin framework\<close>

text \<open>
  A \<open>types.String\<close> is null, unknown or a known string; \<open>ValueString\<close> is the empty
  string for the first two. A diagnostic has a severity, a summary and a detail.
  \<open>Diagnostics.Append\<close> skips a diagnostic that the list already contains, and
  \<open>AddError\<close> appends one error diagnostic through it.
\<close>

datatype tfString = StringNull | StringUnknown | StringValue string

fun IsNull :: "tfString \<Rightarrow> bool" where
  "IsNull StringNull = True"
| "IsNull _ = False"

fun IsUnknown :: "tfString \<Rightarrow> bool" where
  "IsUnknown StringUnknown = True"
| "IsUnknown _ = False"

fun ValueString :: "tfString \<Rightarrow> string" where
  "ValueString (StringValue v) = v"
| "ValueString _ = []"

datatype tfInt64 = Int64Null | Int64Unknown | Int64Value int

datatype severity = SeverityError | SeverityWarning

datatype diagnostic = ErrorDiagnostic string string | WarningDiagnostic string string

fun Severity :: "diagnostic \<Rightarrow> severity" where
  "Severity (ErrorDiagnostic summary detail) = SeverityError"
| "Severity (WarningDiagnostic summary detail) = SeverityWarning"

fun Summary :: "diagnostic \<Rightarrow> string" where
  "Summary (ErrorDiagnostic summary detail) = summary"
| "Summary (WarningDiagnostic summary detail) = summary"

definition HasError :: "diagnostic list \<Rightarrow> bool" where
  "HasError diags = list_ex (\<lambda>d. Severity d = SeverityError) diags"

fun Append :: "diagnostic list \<Rightarrow> diagnostic list \<Rightarrow> diagnostic list" where
  "Append diags [] = diags"
| "Append diags (d # ds) = Append (if d \<in> set diags then diags else diags @ [d]) ds"

definition AddError :: "string \<Rightarrow> string \<Rightarrow> diagnostic list \<Rightarrow> diagnostic list" where
  "AddError summary detail diags = Append diags [ErrorDiagnostic summary detail]"

text \<open>
  \<open>req.Plan.Get(ctx, &plan)\<close> decodes the host's container into the Go struct and returns
  diagnostics: \<open>Data diags v\<close> is a container whose decoding returns \<open>diags\<close> and fills the
  struct with \<open>v\<close>. The response holds the diagnostics and the state; \<open>State.Set\<close> stores
  a record in it and \<open>State.RemoveResource\<close> empties it. The records stored are structs
  of the schema's shape, for which \<open>State.Set\<close> returns no diagnostics.
\<close>

datatype 'm tfsdk_data = Data (getDiags: "diagnostic list") (getValue: 'm)

record 'm response =
  Diagnostics :: "diagnostic list"
  State :: "'m option"

definition addError :: "string \<Rightarrow> string \<Rightarrow> 'm response \<Rightarrow> 'm response" where
  "addError summary detail resp =
     resp\<lparr>Diagnostics := AddError summary detail (Diagnostics resp)\<rparr>"

definition quoted :: "string \<Rightarrow> string" where
  "quoted v = [CHR 0x27] @ v @ [CHR 0x27]"

section \<open>The Jenkins client\<close>

text \<open>
  The gojenkins client is a library outside this repository. It is a parameter here: a
  record of functions over the state \<open>'w\<close> of the remote server, each returning the
  value or the error message (\<open>err.Error()\<close>) and the server's next state. Every call
  the provider makes goes through \<open>invoke\<close>, which also writes the call and whether it
  succeeded to a trace.
\<close>

record gojenkins_Job =
  RawName :: string
  RawDescription :: string
  RawLastCompletedBuildNumber :: int

record gojenkins_Build =
  RawResult :: string
  RawDuration :: real

record 'w Jenkins =
  JobExists :: "string \<Rightarrow> 'w \<Rightarrow> (string + bool) \<times> 'w"
  CreateJob :: "string \<Rightarrow> string \<Rightarrow> 'w \<Rightarrow> (string + gojenkins_Job) \<times> 'w"
  GetJob :: "string \<Rightarrow> 'w \<Rightarrow> (string + gojenkins_Job) \<times> 'w"
  GetJobConfig :: "string \<Rightarrow> 'w \<Rightarrow> (string + string) \<times> 'w"
  UpdateJob :: "string \<Rightarrow> string \<Rightarrow> 'w \<Rightarrow> (string + gojenkins_Job) \<times> 'w"
  DeleteJob :: "string \<Rightarrow> 'w \<Rightarrow> (string + bool) \<times> 'w"
  GetConfig :: "gojenkins_Job \<Rightarrow> 'w \<Rightarrow> (string + string) \<times> 'w"
  GetLastCompletedBuild :: "gojenkins_Job \<Rightarrow> 'w \<Rightarrow> (string + gojenkins_Build) \<times> 'w"

datatype call =
    JobExistsCall string
  | CreateJobCall string string
  | GetJobCall string
  | GetJobConfigCall string
  | UpdateJobCall string string
  | DeleteJobCall string
  | GetConfigCall string
  | GetLastCompletedBuildCall string

fun call_name :: "call \<Rightarrow> string" where
  "call_name (JobExistsCall name) = name"
| "call_name (CreateJobCall config name) = name"
| "call_name (GetJobCall name) = name"
| "call_name (GetJobConfigCall name) = name"
| "call_name (UpdateJobCall name config) = name"
| "call_name (DeleteJobCall name) = name"
| "call_name (GetConfigCall name) = name"
| "call_name (GetLastCompletedBuildCall name) = name"

record 'w remote =
  world :: 'w
  calls :: "(call \<times> bool) list"

definition invoke ::
  "call \<Rightarrow> ('w \<Rightarrow> (string + 'a) \<times> 'w) \<Rightarrow> 'w remote \<Rightarrow> (string + 'a) \<times> 'w remote" where
  "invoke c f s =
     (case f (world s) of
        (r, w) \<Rightarrow> (r, \<lparr>world = w, calls = calls s @ [(c, \<not> isl r)]\<rparr>))"

text \<open>The conversion \<open>int64(f)\<close> of a finite \<open>float64\<close> within range drops the fraction.\<close>

definition int64_of_float64 :: "real \<Rightarrow> int" where
  "int64_of_float64 f = (if f < 0 then \<lceil>f\<rceil> else \<lfloor>f\<rfloor>)"

section \<open>The pipeline resource\<close>

record jenkinsPipelineResourceModel =
  ID :: tfString
  Name :: tfString
  Description :: tfString
  GroovyScript :: tfString
  LastUpdated :: tfString

text \<open>
  Each operation takes the client, the request's containers, the response as the host
  prepared it and the remote state, and returns the response and the remote state it
  leaves. \<open>now\<close> is \<open>time.Now().Format(time.RFC3339)\<close>. Writes to the process log
  are left out.
\<close>

definition Resource_Create ::
  "'w Jenkins \<Rightarrow> string \<Rightarrow> jenkinsPipelineResourceModel tfsdk_data \<Rightarrow>
   jenkinsPipelineResourceModel response \<Rightarrow> 'w remote \<Rightarrow>
   jenkinsPipelineResourceModel response \<times> 'w remote" where
  "Resource_Create client now reqPlan resp0 s0 =
     (let plan = getValue reqPlan;
          resp = resp0\<lparr>Diagnostics := Append (Diagnostics resp0) (getDiags reqPlan)\<rparr> in
      if HasError (Diagnostics resp) then (resp, s0)
      else
        let jobName = ValueString (Name plan);
            description = ValueString (Description plan);
            groovyScript = ValueString (GroovyScript plan);
            configXML = buildPipelineConfigXML description groovyScript in
        case invoke (JobExistsCall jobName) (JobExists client jobName) s0 of
          (Inl err, s1) \<Rightarrow>
            (addError ''Client Error''
               (''Failed to check if job '' @ quoted jobName @ '' exists: '' @ err) resp, s1)
        | (Inr exists, s1) \<Rightarrow>
            if exists then
              (addError ''Job Already Exists''
                 (''Jenkins job '' @ quoted jobName @
                  '' already exists. Consider importing it or using a different name.'') resp, s1)
            else
              case invoke (CreateJobCall configXML jobName) (CreateJob client configXML jobName) s1 of
                (Inl err, s2) \<Rightarrow>
                  (addError ''Jenkins Job Creation Error''
                     (''Failed to create Jenkins Pipeline job '' @ quoted jobName @ '': '' @ err)
                     resp, s2)
              | (Inr created, s2) \<Rightarrow>
                  case invoke (GetJobCall jobName) (GetJob client jobName) s2 of
                    (Inl err, s3) \<Rightarrow>
                      (addError ''Jenkins Job Read Error''
                         (''Failed to read created Jenkins Pipeline job '' @ quoted jobName @
                          '': '' @ err) resp, s3)
                  | (Inr job, s3) \<Rightarrow>
                      (resp\<lparr>State := Some (plan
                         \<lparr>ID := StringValue (RawName job),
                          Name := StringValue (RawName job),
                          Description := StringValue (RawDescription job),
                          GroovyScript := StringValue groovyScript,
                          LastUpdated := StringValue now\<rparr>)\<rparr>, s3))"

definition Resource_Read ::
  "'w Jenkins \<Rightarrow> string \<Rightarrow> jenkinsPipelineResourceModel tfsdk_data \<Rightarrow>
   jenkinsPipelineResourceModel response \<Rightarrow> 'w remote \<Rightarrow>
   jenkinsPipelineResourceModel response \<times> 'w remote" where
  "Resource_Read client now reqState resp0 s0 =
     (let state = getValue reqState;
          resp = resp0\<lparr>Diagnostics := Append (Diagnostics resp0) (getDiags reqState)\<rparr> in
      if HasError (Diagnostics resp) then (resp, s0)
      else
        let jobName = ValueString (ID state) in
        case invoke (JobExistsCall jobName) (JobExists client jobName) s0 of
          (Inl err, s1) \<Rightarrow>
            (addError ''Client Error''
               (''Failed to check if job '' @ quoted jobName @ '' exists during read: '' @ err)
               resp, s1)
        | (Inr exists, s1) \<Rightarrow>
            if \<not> exists then (resp\<lparr>State := None\<rparr>, s1)
            else
              case invoke (GetJobConfigCall jobName) (GetJobConfig client jobName) s1 of
                (Inl err, s2) \<Rightarrow>
                  (addError ''Jenkins Job Config Read Error''
                     (''Failed to read Jenkins Pipeline job config for '' @ quoted jobName @
                      '': '' @ err) resp, s2)
              | (Inr configXML, s2) \<Rightarrow>
                  let (groovyScript, resp) =
                        (case extractGroovyScriptFromXML configXML of
                           Inl err \<Rightarrow>
                             ([], addError ''Groovy Script Extraction Error''
                                    (''Failed to extract Groovy script from job '' @
                                     quoted jobName @ '' config: '' @ err) resp)
                         | Inr v \<Rightarrow> (v, resp));
                      (description, resp) =
                        (case extractDescriptionFromXML configXML of
                           Inl err \<Rightarrow>
                             ([], addError ''Description Extraction Error''
                                    (''Failed to extract description from job '' @
                                     quoted jobName @ '' config: '' @ err) resp)
                         | Inr v \<Rightarrow> (v, resp))
                  in (resp\<lparr>State := Some (state
                        \<lparr>Name := StringValue jobName,
                         Description := StringValue description,
                         GroovyScript := StringValue groovyScript,
                         LastUpdated := StringValue now\<rparr>)\<rparr>, s2))"

definition Resource_Update ::
  "'w Jenkins \<Rightarrow> string \<Rightarrow> jenkinsPipelineResourceModel tfsdk_data \<Rightarrow>
   jenkinsPipelineResourceModel tfsdk_data \<Rightarrow>
   jenkinsPipelineResourceModel response \<Rightarrow> 'w remote \<Rightarrow>
   jenkinsPipelineResourceModel response \<times> 'w remote" where
  "Resource_Update client now reqPlan reqState resp0 s0 =
     (let plan = getValue reqPlan;
          state = getValue reqState;
          resp = resp0\<lparr>Diagnostics :=
                   Append (Append (Diagnostics resp0) (getDiags reqPlan)) (getDiags reqState)\<rparr> in
      if HasError (Diagnostics resp) then (resp, s0)
      else
        let jobName = ValueString (ID state);
            newDescription = ValueString (Description plan);
            newGroovyScript = ValueString (GroovyScript plan);
            updatedConfigXML = buildPipelineConfigXML newDescription newGroovyScript in
        case invoke (UpdateJobCall jobName updatedConfigXML)
               (UpdateJob client jobName updatedConfigXML) s0 of
          (Inl err, s1) \<Rightarrow>
            (addError ''Jenkins Job Update Error''
               (''Failed to update Jenkins Pipeline job '' @ quoted jobName @ '': '' @ err)
               resp, s1)
        | (Inr updated, s1) \<Rightarrow>
            case invoke (GetJobCall jobName) (GetJob client jobName) s1 of
              (Inl err, s2) \<Rightarrow>
                (addError ''Jenkins Job Read Error After Update''
                   (''Failed to read updated Jenkins Pipeline job '' @ quoted jobName @
                    '': '' @ err) resp, s2)
            | (Inr job, s2) \<Rightarrow>
                (resp\<lparr>State := Some (state
                   \<lparr>Description := StringValue (RawDescription job),
                    GroovyScript := StringValue newGroovyScript,
                    LastUpdated := StringValue now\<rparr>)\<rparr>, s2))"

definition Resource_Delete ::
  "'w Jenkins \<Rightarrow> jenkinsPipelineResourceModel tfsdk_data \<Rightarrow>
   jenkinsPipelineResourceModel response \<Rightarrow> 'w remote \<Rightarrow>
   jenkinsPipelineResourceModel response \<times> 'w remote" where
  "Resource_Delete client reqState resp0 s0 =
     (let state = getValue reqState;
          resp = resp0\<lparr>Diagnostics := Append (Diagnostics resp0) (getDiags reqState)\<rparr> in
      if HasError (Diagnostics resp) then (resp, s0)
      else
        let jobName = ValueString (ID state) in
        case invoke (JobExistsCall jobName) (JobExists client jobName) s0 of
          (Inl err, s1) \<Rightarrow>
            (addError ''Client Error''
               (''Failed to check if job '' @ quoted jobName @
                '' exists before deletion: '' @ err) resp, s1)
        | (Inr exists, s1) \<Rightarrow>
            if \<not> exists then (resp, s1)
            else
              case invoke (DeleteJobCall jobName) (DeleteJob client jobName) s1 of
                (Inl err, s2) \<Rightarrow>
                  (addError ''Jenkins Job Deletion Error''
                     (''Failed to delete Jenkins Pipeline job '' @ quoted jobName @ '': '' @ err)
                     resp, s2)
              | (Inr deleted, s2) \<Rightarrow> (resp, s2))"

text \<open>The four entry points of the resource, as the host calls them.\<close>

datatype operation =
    Create "jenkinsPipelineResourceModel tfsdk_data"
  | Read "jenkinsPipelineResourceModel tfsdk_data"
  | Update "jenkinsPipelineResourceModel tfsdk_data" "jenkinsPipelineResourceModel tfsdk_data"
  | Delete "jenkinsPipelineResourceModel tfsdk_data"

fun run ::
  "'w Jenkins \<Rightarrow> string \<Rightarrow> operation \<Rightarrow> jenkinsPipelineResourceModel response \<Rightarrow>
   'w remote \<Rightarrow> jenkinsPipelineResourceModel response \<times> 'w remote" where
  "run client now (Create reqPlan) resp s = Resource_Create client now reqPlan resp s"
| "run client now (Read reqState) resp s = Resource_Read client now reqState resp s"
| "run client now (Update reqPlan reqState) resp s =
     Resource_Update client now reqPlan reqState resp s"
| "run client now (Delete reqState) resp s = Resource_Delete client reqState resp s"

text \<open>The calls an invocation added to the trace.\<close>

definition new_calls :: "'w remote \<Rightarrow> 'w remote \<Rightarrow> (call \<times> bool) list" where
  "new_calls s s' = drop (length (calls s)) (calls s')"

section \<open>The pipeline data source\<close>

record jenkinsPipelineDataSourceModel =
  dsID :: tfString
  dsName :: tfString
  dsDescription :: tfString
  dsGroovyScript :: tfString
  dsLastBuildStatus :: tfString
  dsLastBuildDuration :: tfInt64

definition DataSource_Read ::
  "'w Jenkins \<Rightarrow> jenkinsPipelineDataSourceModel tfsdk_data \<Rightarrow>
   jenkinsPipelineDataSourceModel response \<Rightarrow> 'w remote \<Rightarrow>
   jenkinsPipelineDataSourceModel response \<times> 'w remote" where
  "DataSource_Read client reqConfig resp0 s0 =
     (let config = getValue reqConfig;
          resp = resp0\<lparr>Diagnostics := Append (Diagnostics resp0) (getDiags reqConfig)\<rparr> in
      if HasError (Diagnostics resp) then (resp, s0)
      else
        case (if \<not> IsNull (dsID config) \<and> \<not> IsUnknown (dsID config)
              then Some (ValueString (dsID config))
              else if \<not> IsNull (dsName config) \<and> \<not> IsUnknown (dsName config)
              then Some (ValueString (dsName config))
              else None) of
          None \<Rightarrow>
            (addError ''Missing Identifier''
               (''One of 'id' or 'name' must be provided to read the Jenkins Pipeline data source.'')
               resp, s0)
        | Some jobName \<Rightarrow>
            case invoke (GetJobCall jobName) (GetJob client jobName) s0 of
              (Inl err, s1) \<Rightarrow>
                if strings_Contains err ''404'' \<or> strings_Contains err ''no such job'' then
                  (addError ''Jenkins Job Not Found''
                     (''No Jenkins Pipeline job found with name/ID: '' @ quoted jobName @
                      ''. Error: '' @ err) resp, s1)
                else
                  (addError ''Jenkins Job Read Error''
                     (''Failed to get Jenkins job details for '' @ quoted jobName @ '': '' @ err)
                     resp, s1)
            | (Inr job, s1) \<Rightarrow>
                case invoke (GetConfigCall (RawName job)) (GetConfig client job) s1 of
                  (Inl err, s2) \<Rightarrow>
                    (addError ''Jenkins Job Config Read Error''
                       (''Failed to read Jenkins Pipeline job config for '' @ quoted jobName @
                        '': '' @ err) resp, s2)
                | (Inr configXML, s2) \<Rightarrow>
                    let (groovyScript, resp) =
                          (case extractGroovyScriptFromXML configXML of
                             Inl err \<Rightarrow>
                               ([], addError ''Groovy Script Extraction Error''
                                      (''Failed to extract Groovy script from job '' @
                                       quoted jobName @ '' config: '' @ err) resp)
                           | Inr v \<Rightarrow> (v, resp));
                        (description, resp) =
                          (case extractDescriptionFromXML configXML of
                             Inl err \<Rightarrow>
                               ([], addError ''Description Extraction Error''
                                      (''Failed to extract description from job '' @
                                       quoted jobName @ '' config: '' @ err) resp)
                           | Inr v \<Rightarrow> (v, resp));
                        (lastBuildStatus, lastBuildDuration, s3) =
                          (if RawLastCompletedBuildNumber job > 0 then
                             (case invoke (GetLastCompletedBuildCall (RawName job))
                                     (GetLastCompletedBuild client job) s2 of
                                (Inr lastBuild, s3) \<Rightarrow>
                                  (RawResult lastBuild,
                                   int64_of_float64 (RawDuration lastBuild), s3)
                              | (Inl err, s3) \<Rightarrow> ([], 0, s3))
                           else ([], 0, s2))
                    in (resp\<lparr>State := Some (config
                          \<lparr>dsID := StringValue (RawName job),
                           dsName := StringValue (RawName job),
                           dsDescription := StringValue description,
                           dsGroovyScript := StringValue groovyScript,
                           dsLastBuildStatus := StringValue lastBuildStatus,
                           dsLastBuildDuration := Int64Value lastBuildDuration\<rparr>)\<rparr>, s3))"

section \<open>An in-memory server\<close>

text \<open>
  A client to run the operations on: the server is a list of job names with their
  configuration documents; a missing job is the error \<open>404\<close>, as gojenkins reports it, and
  creating a job that exists is the error \<open>400\<close>. The description a job reports is the
  one in its document. No job has a completed build.
\<close>

definition memJob :: "string \<Rightarrow> string \<Rightarrow> gojenkins_Job" where
  "memJob name config =
     \<lparr>RawName = name,
      RawDescription = (case extractDescriptionFromXML config of Inl err \<Rightarrow> [] | Inr v \<Rightarrow> v),
      RawLastCompletedBuildNumber = 0\<rparr>"

definition memJenkins :: "(string \<times> string) list Jenkins" where
  "memJenkins =
     \<lparr>JobExists = (\<lambda>name w. (Inr (map_of w name \<noteq> None), w)),
      CreateJob = (\<lambda>config name w.
        case map_of w name of
          None \<Rightarrow> (Inr (memJob name config), (name, config) # w)
        | Some old \<Rightarrow> (Inl ''400'', w)),
      GetJob = (\<lambda>name w.
        case map_of w name of
          None \<Rightarrow> (Inl ''404'', w)
        | Some config \<Rightarrow> (Inr (memJob name config), w)),
      GetJobConfig = (\<lambda>name w.
        case map_of w name of
          None \<Rightarrow> (Inl ''404'', w)
        | Some config \<Rightarrow> (Inr config, w)),
      UpdateJob = (\<lambda>name config w.
        case map_of w name of
          None \<Rightarrow> (Inl ''404'', w)
        | Some old \<Rightarrow> (Inr (memJob name config), (name, config) # w)),
      DeleteJob = (\<lambda>name w.
        case map_of w name of
          None \<Rightarrow> (Inl ''404'', w)
        | Some old \<Rightarrow> (Inr True, filter (\<lambda>e. fst e \<noteq> name) w)),
      GetConfig = (\<lambda>job w.
        case map_of w (RawName job) of
          None \<Rightarrow> (Inl ''404'', w)
        | Some config \<Rightarrow> (Inr config, w)),
      GetLastCompletedBuild = (\<lambda>job w. (Inl ''404'', w))\<rparr>"

text \<open>Inputs to run the operations on.\<close>

definition examplePlan :: jenkinsPipelineResourceModel where
  "examplePlan =
     \<lparr>ID = StringUnknown, Name = StringValue ''nightly'',
      Description = StringValue ''nightly build'', GroovyScript = StringValue ''echo hi'',
      LastUpdated = StringUnknown\<rparr>"

definition exampleRecord :: jenkinsPipelineResourceModel where
  "exampleRecord =
     \<lparr>ID = StringValue ''nightly'', Name = StringValue ''nightly'',
      Description = StringValue ''nightly build'', GroovyScript = StringValue ''echo hi'',
      LastUpdated = StringValue ''2024-01-01T00:00:00Z''\<rparr>"

definition exampleConfig :: "tfString \<Rightarrow> tfString \<Rightarrow> jenkinsPipelineDataSourceModel" where
  "exampleConfig jobId jobName =
     \<lparr>dsID = jobId, dsName = jobName, dsDescription = StringNull, dsGroovyScript = StringNull,
      dsLastBuildStatus = StringNull, dsLastBuildDuration = Int64Null\<rparr>"

definition emptyResponse :: "'m option \<Rightarrow> 'm response" where
  "emptyResponse st = \<lparr>Diagnostics = [], State = st\<rparr>"

definition freshRemote :: "'w \<Rightarrow> 'w remote" where
  "freshRemote w = \<lparr>world = w, calls = []\<rparr>"

section \<open>Searching across a concatenation\<close>

text \<open>
  \<open>shiftIndex n i\<close> is the index \<open>i\<close> found in a suffix, seen from \<open>n\<close> bytes earlier.
  \<open>no_straddle sub rest\<close> says that no proper, non-empty end of \<open>sub\<close> starts \<open>rest\<close>: an
  instance of \<open>sub\<close> in \<open>d @ rest\<close> then lies in \<open>d\<close> or in \<open>rest\<close>.
\<close>

definition shiftIndex :: "int \<Rightarrow> int \<Rightarrow> int" where
  "shiftIndex n i = (if i < 0 then - 1 else n + i)"

definition no_straddle :: "string \<Rightarrow> string \<Rightarrow> bool" where
  "no_straddle sub rest =
     list_all (\<lambda>v. v = [] \<or> v = sub \<or> \<not> prefix v rest) (suffixes sub)"

section \<open>Properties of the string functions\<close>

lemma strings_Index_ge: "- 1 \<le> strings_Index s sub"
  by (induction s) (auto simp: Let_def strings_Index.simps(2))

lemma strings_Index_Cons:
  "strings_Index (c # t) sub =
     (if prefix sub (c # t) then 0 else shiftIndex 1 (strings_Index t sub))"
  using strings_Index_ge[of t sub] by (auto simp: shiftIndex_def Let_def strings_Index.simps(2))

lemma strings_Index_bounds:
  "strings_Index s sub \<noteq> - 1 \<Longrightarrow>
     0 \<le> strings_Index s sub \<and> strings_Index s sub + int (length sub) \<le> int (length s)"
proof (induction s)
  case Nil
  then show ?case by (simp split: if_splits)
next
  case (Cons c t)
  show ?case
  proof (cases "prefix sub (c # t)")
    case True
    then show ?thesis using prefix_length_le[OF True] by (simp add: strings_Index_Cons)
  next
    case False
    with Cons show ?thesis
      by (auto simp: strings_Index_Cons shiftIndex_def split: if_splits)
  qed
qed

lemma strings_Index_sublist: "strings_Index s sub = - 1 \<longleftrightarrow> \<not> sublist sub s"
proof (induction s)
  case Nil
  then show ?case by auto
next
  case (Cons c t)
  have ge: "- 1 \<le> strings_Index t sub" by (rule strings_Index_ge)
  show ?case
  proof (cases "prefix sub (c # t)")
    case True
    then show ?thesis by (auto simp: sublist_Cons_right strings_Index_Cons)
  next
    case False
    then show ?thesis using Cons ge
      by (auto simp: strings_Index_Cons shiftIndex_def sublist_Cons_right)
  qed
qed

lemma strings_Index_first:
  assumes "strings_Index s sub \<noteq> - 1"
  shows "prefix sub (drop (nat (strings_Index s sub)) s)"
    and "j < nat (strings_Index s sub) \<Longrightarrow> \<not> prefix sub (drop j s)"
  using assms
proof (induction s arbitrary: j)
  case Nil
  { case 1 then show ?case by (simp split: if_splits) }
  { case 2 then show ?case by (simp split: if_splits) }
next
  case (Cons c t)
  have ge: "- 1 \<le> strings_Index t sub" by (rule strings_Index_ge)
  { case 1
    show ?case
    proof (cases "prefix sub (c # t)")
      case True
      then show ?thesis by (simp add: strings_Index_Cons)
    next
      case False
      with 1 have ne: "strings_Index t sub \<noteq> - 1"
        by (auto simp: strings_Index_Cons shiftIndex_def split: if_splits)
      with ge have "nat (1 + strings_Index t sub) = Suc (nat (strings_Index t sub))"
        by linarith
      with False ne ge Cons.IH(1) show ?thesis
        by (simp add: strings_Index_Cons shiftIndex_def)
    qed }
  { case 2
    show ?case
    proof (cases "prefix sub (c # t)")
      case True
      with 2 show ?thesis by (simp add: strings_Index_Cons)
    next
      case False
      with 2(2) have ne: "strings_Index t sub \<noteq> - 1"
        by (auto simp: strings_Index_Cons shiftIndex_def split: if_splits)
      with ge have n: "nat (1 + strings_Index t sub) = Suc (nat (strings_Index t sub))"
        by linarith
      show ?thesis
      proof (cases j)
        case 0
        with False show ?thesis by simp
      next
        case (Suc k)
        with 2(1) False ne ge n have "k < nat (strings_Index t sub)"
          by (simp add: strings_Index_Cons shiftIndex_def)
        from Cons.IH(2)[OF this ne] Suc show ?thesis by simp
      qed
    qed }
qed

text \<open>The slices the extractors take are within bounds: the Go code does not panic there.\<close>

lemma extractor_slices_ok:
  assumes st: "strings_Index xmlConfig startTag \<noteq> - 1"
  defines "startIndex \<equiv> strings_Index xmlConfig startTag + int (length startTag)"
  shows "slice_ok xmlConfig startIndex (int (length xmlConfig))"
    and "strings_Index (slice_from xmlConfig startIndex) endTag \<noteq> - 1 \<Longrightarrow>
           slice_ok xmlConfig startIndex
             (strings_Index (slice_from xmlConfig startIndex) endTag + startIndex)"
proof -
  from strings_Index_bounds[OF st]
  have lo: "0 \<le> startIndex" "startIndex \<le> int (length xmlConfig)"
    by (simp_all add: startIndex_def)
  then show "slice_ok xmlConfig startIndex (int (length xmlConfig))"
    by (simp add: slice_ok_def)
  assume en: "strings_Index (slice_from xmlConfig startIndex) endTag \<noteq> - 1"
  from strings_Index_bounds[OF en] lo
  show "slice_ok xmlConfig startIndex
          (strings_Index (slice_from xmlConfig startIndex) endTag + startIndex)"
    by (simp add: slice_ok_def slice_from_def)
qed

lemma not_Contains: "\<not> strings_Contains s sub \<longleftrightarrow> strings_Index s sub = - 1"
  using strings_Index_ge[of s sub] by (auto simp: strings_Contains_def)

lemma shiftIndex_shiftIndex: "0 \<le> b \<Longrightarrow> shiftIndex a (shiftIndex b i) = shiftIndex (a + b) i"
  by (simp add: shiftIndex_def)

lemma shiftIndex_found: "0 \<le> i \<Longrightarrow> shiftIndex n i = n + i"
  by (simp add: shiftIndex_def)

lemma shiftIndex_none: "shiftIndex n (- 1) = - 1"
  by (simp add: shiftIndex_def)

lemmas Index_eval = strings_Index_Cons shiftIndex_shiftIndex shiftIndex_found shiftIndex_none

lemma prefix_straddle:
  assumes p: "prefix sub (u @ rest)" and u: "u \<noteq> []" and np: "\<not> prefix sub u"
  shows "\<exists>v\<in>set (suffixes sub). v \<noteq> [] \<and> v \<noteq> sub \<and> prefix v rest"
proof -
  from p np obtain v where v: "sub = u @ v" "prefix v rest"
    by (auto simp: prefix_append)
  from v(1) have "suffix v sub" by (simp add: suffix_def)
  moreover from v(1) u have "v \<noteq> sub" by auto
  moreover from v(1) np have "v \<noteq> []" by auto
  ultimately show ?thesis using v(2) by auto
qed

lemma strings_Index_append_skip:
  assumes "strings_Index d sub = - 1" and "no_straddle sub rest"
  shows "strings_Index (d @ rest) sub = shiftIndex (int (length d)) (strings_Index rest sub)"
  using assms(1)
proof (induction d)
  case Nil
  then show ?case using strings_Index_ge[of rest sub] by (simp add: shiftIndex_def)
next
  case (Cons c d)
  have ge: "- 1 \<le> strings_Index d sub" by (rule strings_Index_ge)
  from Cons.prems ge have np: "\<not> prefix sub (c # d)" and d: "strings_Index d sub = - 1"
    by (auto simp: strings_Index_Cons shiftIndex_def split: if_splits)
  have "\<not> prefix sub ((c # d) @ rest)"
    using prefix_straddle[of sub "c # d" rest] np assms(2)
    unfolding no_straddle_def list_all_iff by blast
  then show ?case using Cons.IH[OF d]
    by (simp add: strings_Index_Cons shiftIndex_shiftIndex)
qed

section \<open>The codec on the documents it writes\<close>

lemma length_head: "length configXML_head = 117"
  by (simp add: configXML_head_def)

lemma length_mid: "length configXML_mid = 214"
  by (simp add: configXML_mid_def)

lemma head_scriptStart:
  "strings_Index (configXML_head @ r) ''<script><![CDATA['' =
     shiftIndex 117 (strings_Index r ''<script><![CDATA['')"
  by (simp add: configXML_head_def Index_eval)

lemma mid_scriptStart:
  "strings_Index (configXML_mid @ r) ''<script><![CDATA['' = 197"
  by (simp add: configXML_mid_def Index_eval)

lemma mid_scriptEnd:
  "strings_Index (configXML_mid @ r) '']]></script>'' =
     shiftIndex 214 (strings_Index r '']]></script>'')"
  by (simp add: configXML_mid_def Index_eval)

lemma no_straddle_scriptStart: "no_straddle ''<script><![CDATA['' (configXML_mid @ r)"
  by (simp add: no_straddle_def configXML_mid_def)

lemma tail_scriptEnd: "strings_Index (configXML_tail @ r) '']]></script>'' = 0"
  by (simp add: configXML_tail_def Index_eval)

lemma no_straddle_scriptEnd: "no_straddle '']]></script>'' (configXML_tail @ r)"
  by (simp add: no_straddle_def configXML_tail_def)

lemma head_descStart: "strings_Index (configXML_head @ r) ''<description>'' = 104"
  by (simp add: configXML_head_def Index_eval)

lemma mid_descEnd: "strings_Index (configXML_mid @ r) ''</description>'' = 0"
  by (simp add: configXML_mid_def Index_eval)

lemma no_straddle_descEnd: "no_straddle ''</description>'' (configXML_mid @ r)"
  by (simp add: no_straddle_def configXML_mid_def)

lemma extractGroovyScript_build:
  assumes d: "strings_Index description ''<script><![CDATA['' = - 1"
      and s: "strings_Index groovyScript '']]></script>'' = - 1"
  shows "extractGroovyScriptFromXML (buildPipelineConfigXML description groovyScript) =
           Inr groovyScript"
proof -
  let ?doc = "buildPipelineConfigXML description groovyScript"
  let ?pre = "configXML_head @ description @ configXML_mid"
  have doc: "?doc = ?pre @ groovyScript @ configXML_tail"
    by (simp add: buildPipelineConfigXML_def)
  have len: "int (length ?pre) = 331 + int (length description)"
    by (simp add: length_head length_mid)
  have "strings_Index ?doc ''<script><![CDATA['' =
          shiftIndex 117 (strings_Index
            (description @ configXML_mid @ groovyScript @ configXML_tail) ''<script><![CDATA['')"
    unfolding buildPipelineConfigXML_def by (rule head_scriptStart)
  also have "\<dots> = shiftIndex 117 (shiftIndex (int (length description)) 197)"
    using d by (simp add: strings_Index_append_skip no_straddle_scriptStart mid_scriptStart)
  also have "\<dots> = 314 + int (length description)"
    by (simp add: shiftIndex_def)
  finally have start: "strings_Index ?doc ''<script><![CDATA['' = int (length ?pre) - 17"
    using len by simp
  have rest: "slice_from ?doc (int (length ?pre)) = groovyScript @ configXML_tail"
    unfolding doc slice_from_def by simp
  have "strings_Index (groovyScript @ configXML_tail @ []) '']]></script>'' =
          shiftIndex (int (length groovyScript)) 0"
    using s by (subst strings_Index_append_skip) (simp_all only: no_straddle_scriptEnd tail_scriptEnd)
  then have endi: "strings_Index (groovyScript @ configXML_tail) '']]></script>'' =
          int (length groovyScript)"
    by (simp add: shiftIndex_def)
  have sl: "slice ?doc (int (length ?pre)) (int (length groovyScript) + int (length ?pre)) =
          groovyScript"
    unfolding doc slice_def by simp
  have neq: "int (length ?pre) - 17 \<noteq> - 1" using len by simp
  show ?thesis
    unfolding extractGroovyScriptFromXML_def Let_def
    using start rest endi sl neq by simp
qed

lemma extractDescription_build:
  assumes d: "strings_Index description ''</description>'' = - 1"
  shows "extractDescriptionFromXML (buildPipelineConfigXML description groovyScript) =
           Inr description"
proof -
  let ?doc = "buildPipelineConfigXML description groovyScript"
  let ?rest = "configXML_mid @ groovyScript @ configXML_tail"
  have doc: "?doc = configXML_head @ description @ ?rest"
    by (simp add: buildPipelineConfigXML_def)
  have start: "strings_Index ?doc ''<description>'' = 104"
    unfolding doc by (rule head_descStart)
  have rest: "slice_from ?doc 117 = description @ ?rest"
    unfolding doc slice_from_def by (simp add: length_head)
  have "strings_Index (description @ ?rest) ''</description>'' =
          shiftIndex (int (length description)) 0"
    using d by (simp add: strings_Index_append_skip no_straddle_descEnd mid_descEnd)
  then have endi: "strings_Index (description @ ?rest) ''</description>'' =
          int (length description)"
    by (simp add: shiftIndex_def)
  have sl: "slice ?doc 117 (int (length description) + 117) = description"
    unfolding doc slice_def by (simp add: length_head nat_add_distrib)
  show ?thesis
    unfolding extractDescriptionFromXML_def Let_def
    using start rest endi sl by simp
qed

text \<open>
  A description that holds the opening delimiter of the script section: the extractor
  finds that instance first and returns everything from there to the end of the real
  script.
\<close>

lemma extractGroovyScript_description_with_scriptStart:
  assumes s: "strings_Index groovyScript '']]></script>'' = - 1"
  shows "extractGroovyScriptFromXML
           (buildPipelineConfigXML ''<script><![CDATA['' groovyScript) =
         Inr (configXML_mid @ groovyScript)"
proof -
  let ?doc = "buildPipelineConfigXML ''<script><![CDATA['' groovyScript"
  let ?pre = "configXML_head @ ''<script><![CDATA[''"
  let ?rest = "configXML_mid @ groovyScript @ configXML_tail"
  have doc: "?doc = ?pre @ ?rest"
    by (simp add: buildPipelineConfigXML_def)
  have len: "length ?pre = 134" by (simp add: length_head)
  have start: "strings_Index ?doc ''<script><![CDATA['' = 117"
    unfolding buildPipelineConfigXML_def
    by (simp add: head_scriptStart strings_Index_Cons shiftIndex_found)
  have rest: "slice_from ?doc 134 = ?rest"
    unfolding doc slice_from_def using len by simp
  have "strings_Index (groovyScript @ configXML_tail @ []) '']]></script>'' =
          shiftIndex (int (length groovyScript)) 0"
    using s by (subst strings_Index_append_skip) (simp_all only: no_straddle_scriptEnd tail_scriptEnd)
  then have "strings_Index ?rest '']]></script>'' = shiftIndex 214 (int (length groovyScript))"
    by (simp add: mid_scriptEnd shiftIndex_def)
  then have endi: "strings_Index ?rest '']]></script>'' = 214 + int (length groovyScript)"
    by (simp add: shiftIndex_def)
  have "slice ?doc 134 (214 + int (length groovyScript) + 134) =
          take (214 + length groovyScript) ?rest"
    unfolding doc slice_def using len by (simp add: nat_add_distrib)
  then have sl: "slice ?doc 134 (214 + int (length groovyScript) + 134) =
          configXML_mid @ groovyScript"
    by (simp add: length_mid)
  show ?thesis
    unfolding extractGroovyScriptFromXML_def Let_def
    using start rest endi sl by simp
qed

section \<open>C1: round trip through the codec\<close>

text \<open>
  C1, as stated, at the description \<open><script><![CDATA[\<close> and the script \<open>x\<close>: neither
  holds the closing delimiter of its section, and the script read back is not \<open>x\<close>.
\<close>

theorem roundtrip_counterexample:
  "\<not> strings_Contains ''<script><![CDATA['' ''</description>'' \<and>
   \<not> strings_Contains ''x'' '']]></script>'' \<and>
   extractGroovyScriptFromXML (buildPipelineConfigXML ''<script><![CDATA['' ''x'') \<noteq> Inr ''x''"
proof -
  have h1: "\<not> strings_Contains ''<script><![CDATA['' ''</description>''"
    by (simp add: strings_Contains_def Index_eval)
  have h2: "strings_Index ''x'' '']]></script>'' = - 1"
    by (simp add: Index_eval)
  have "configXML_mid @ ''x'' \<noteq> ''x''"
    by (simp add: configXML_mid_def)
  with extractGroovyScript_description_with_scriptStart[OF h2] h1 h2 show ?thesis
    by (simp add: not_Contains)
qed

text \<open>
  C1, amended: for every description that contains neither \<open></description>\<close> nor the
  opening delimiter \<open><script><![CDATA[\<close> of the script section, and every script that
  does not contain \<open>]]></script>\<close>, the two extractors applied to
  \<open>buildPipelineConfigXML description script\<close> return exactly the script and the
  description.
\<close>

theorem roundtrip_amended:
  assumes "\<not> strings_Contains description ''</description>''"
      and "\<not> strings_Contains description ''<script><![CDATA[''"
      and "\<not> strings_Contains groovyScript '']]></script>''"
  shows "extractGroovyScriptFromXML (buildPipelineConfigXML description groovyScript) =
           Inr groovyScript \<and>
         extractDescriptionFromXML (buildPipelineConfigXML description groovyScript) =
           Inr description"
  using assms extractGroovyScript_build extractDescription_build
  by (simp add: not_Contains)

theorem roundtrip_amended_witness:
  "\<not> strings_Contains ''nightly build'' ''</description>'' \<and>
   \<not> strings_Contains ''nightly build'' ''<script><![CDATA['' \<and>
   \<not> strings_Contains ''echo hi'' '']]></script>'' \<and>
   extractGroovyScriptFromXML (buildPipelineConfigXML ''nightly build'' ''echo hi'') =
     Inr ''echo hi'' \<and>
   extractDescriptionFromXML (buildPipelineConfigXML ''nightly build'' ''echo hi'') =
     Inr ''nightly build''"
proof -
  have h1: "\<not> strings_Contains ''nightly build'' ''</description>''"
    by (simp add: strings_Contains_def Index_eval)
  have h2: "\<not> strings_Contains ''nightly build'' ''<script><![CDATA[''"
    by (simp add: strings_Contains_def Index_eval)
  have h3: "\<not> strings_Contains ''echo hi'' '']]></script>''"
    by (simp add: strings_Contains_def Index_eval)
  from roundtrip_amended[OF h1 h2 h3] h1 h2 h3 show ?thesis by blast
qed

section \<open>Diagnostics, responses and the trace\<close>

lemma set_Append: "set (Append diags ds) = set diags \<union> set ds"
  by (induction ds arbitrary: diags) auto

lemma HasError_set: "HasError diags \<longleftrightarrow> (\<exists>d\<in>set diags. Severity d = SeverityError)"
  by (simp add: HasError_def list_ex_iff)

lemma HasError_Nil: "\<not> HasError []"
  by (simp add: HasError_def)

lemma HasError_Append: "HasError (Append diags ds) \<longleftrightarrow> HasError diags \<or> HasError ds"
  by (auto simp: HasError_set set_Append)

lemma set_AddError:
  "set (AddError summary detail diags) = insert (ErrorDiagnostic summary detail) (set diags)"
  by (auto simp: AddError_def set_Append)

lemma HasError_AddError: "HasError (AddError summary detail diags)"
proof -
  have "ErrorDiagnostic summary detail \<in> set (AddError summary detail diags)"
    by (simp add: set_AddError)
  moreover have "Severity (ErrorDiagnostic summary detail) = SeverityError" by simp
  ultimately show ?thesis unfolding HasError_set by blast
qed

lemma addError_simps:
  "State (addError summary detail resp) = State resp"
  "Diagnostics (addError summary detail resp) = AddError summary detail (Diagnostics resp)"
  by (simp_all add: addError_def)


lemma new_calls_append: "new_calls s \<lparr>world = w, calls = calls s @ cs\<rparr> = cs"
  by (simp add: new_calls_def)

lemma Resource_Read_absent:
  assumes ok: "\<not> HasError (Append (Diagnostics resp) (getDiags reqState))"
      and ex: "JobExists client (ValueString (ID (getValue reqState))) (world s) = (Inr False, w)"
  shows "Resource_Read client now reqState resp s =
           (resp\<lparr>Diagnostics := Append (Diagnostics resp) (getDiags reqState), State := None\<rparr>,
            \<lparr>world = w,
             calls = calls s @ [(JobExistsCall (ValueString (ID (getValue reqState))), True)]\<rparr>)"
  using ok by (simp add: Resource_Read_def Let_def invoke_def ex)

lemma Resource_Create_exists:
  assumes ok: "\<not> HasError (Append (Diagnostics resp) (getDiags reqPlan))"
      and ex: "JobExists client (ValueString (Name (getValue reqPlan))) (world s) = (Inr True, w)"
  shows "Resource_Create client now reqPlan resp s =
           (addError ''Job Already Exists''
              (''Jenkins job '' @ quoted (ValueString (Name (getValue reqPlan))) @
               '' already exists. Consider importing it or using a different name.'')
              (resp\<lparr>Diagnostics := Append (Diagnostics resp) (getDiags reqPlan)\<rparr>),
            \<lparr>world = w,
             calls = calls s @ [(JobExistsCall (ValueString (Name (getValue reqPlan))), True)]\<rparr>)"
  using ok by (simp add: Resource_Create_def Let_def invoke_def ex)

lemma example_simps:
  "\<not> HasError (Append (Diagnostics (emptyResponse st)) [])"
  "world (freshRemote w) = w"
  "calls (freshRemote w) = []"
  "State (emptyResponse st) = st"
  "Diagnostics (emptyResponse st) = []"
  by (simp_all add: emptyResponse_def freshRemote_def HasError_def)

section \<open>C2: a read of a document that does not decode\<close>

lemma extract_description_only:
  "extractGroovyScriptFromXML ''<description>nightly build</description>'' =
     Inl ''could not find start of Groovy script tag in XML''"
  "extractDescriptionFromXML ''<description>nightly build</description>'' =
     Inr ''nightly build''"
  by (simp_all add: extractGroovyScriptFromXML_def extractDescriptionFromXML_def Let_def
      Index_eval slice_def slice_from_def)

lemma Resource_Read_decoded:
  assumes ok: "\<not> HasError (Append (Diagnostics resp) (getDiags reqState))"
      and ex: "JobExists client (ValueString (ID (getValue reqState))) (world s) = (Inr True, w1)"
      and cfg: "GetJobConfig client (ValueString (ID (getValue reqState))) w1 =
                  (Inr configXML, w2)"
  shows "State (fst (Resource_Read client now reqState resp s)) =
           Some (getValue reqState
             \<lparr>Name := StringValue (ValueString (ID (getValue reqState))),
              Description := StringValue
                (case extractDescriptionFromXML configXML of Inl err \<Rightarrow> [] | Inr v \<Rightarrow> v),
              GroovyScript := StringValue
                (case extractGroovyScriptFromXML configXML of Inl err \<Rightarrow> [] | Inr v \<Rightarrow> v),
              LastUpdated := StringValue now\<rparr>)"
    and "snd (Resource_Read client now reqState resp s) =
           \<lparr>world = w2, calls = calls s @
              [(JobExistsCall (ValueString (ID (getValue reqState))), True),
               (GetJobConfigCall (ValueString (ID (getValue reqState))), True)]\<rparr>"
    and "set (Diagnostics (fst (Resource_Read client now reqState resp s))) =
           set (Append (Diagnostics resp) (getDiags reqState)) \<union>
           (case extractGroovyScriptFromXML configXML of
              Inl err \<Rightarrow> {ErrorDiagnostic ''Groovy Script Extraction Error''
                (''Failed to extract Groovy script from job '' @
                 quoted (ValueString (ID (getValue reqState))) @ '' config: '' @ err)}
            | Inr v \<Rightarrow> {}) \<union>
           (case extractDescriptionFromXML configXML of
              Inl err \<Rightarrow> {ErrorDiagnostic ''Description Extraction Error''
                (''Failed to extract description from job '' @
                 quoted (ValueString (ID (getValue reqState))) @ '' config: '' @ err)}
            | Inr v \<Rightarrow> {})"
  using ok
  by (cases "extractGroovyScriptFromXML configXML"; cases "extractDescriptionFromXML configXML";
      simp add: Resource_Read_def Let_def invoke_def ex cfg addError_simps set_AddError)+

text \<open>
  C2, as stated, on a server whose document for the job has a well-formed description
  and no script section: the record is written with an empty script and the
  description of the document, but the one diagnostic attached is an error, not a
  warning, so the response reports an error to the host.
\<close>

theorem Read_decode_failure_counterexample:
  "extractGroovyScriptFromXML ''<description>nightly build</description>'' =
     Inl ''could not find start of Groovy script tag in XML'' \<and>
   extractDescriptionFromXML ''<description>nightly build</description>'' =
     Inr ''nightly build'' \<and>
   State (fst (Resource_Read memJenkins ''2024-06-01T12:00:00Z'' (Data [] exampleRecord)
     (emptyResponse (Some exampleRecord))
     (freshRemote [(''nightly'', ''<description>nightly build</description>'')]))) =
     Some (exampleRecord\<lparr>GroovyScript := StringValue [],
       LastUpdated := StringValue ''2024-06-01T12:00:00Z''\<rparr>) \<and>
   Diagnostics (fst (Resource_Read memJenkins ''2024-06-01T12:00:00Z'' (Data [] exampleRecord)
     (emptyResponse (Some exampleRecord))
     (freshRemote [(''nightly'', ''<description>nightly build</description>'')]))) =
     [ErrorDiagnostic ''Groovy Script Extraction Error''
        (''Failed to extract Groovy script from job 'nightly' config: '' @
         ''could not find start of Groovy script tag in XML'')] \<and>
   \<not> list_ex (\<lambda>d. Severity d = SeverityWarning)
     (Diagnostics (fst (Resource_Read memJenkins ''2024-06-01T12:00:00Z'' (Data [] exampleRecord)
       (emptyResponse (Some exampleRecord))
       (freshRemote [(''nightly'', ''<description>nightly build</description>'')])))) \<and>
   HasError
     (Diagnostics (fst (Resource_Read memJenkins ''2024-06-01T12:00:00Z'' (Data [] exampleRecord)
       (emptyResponse (Some exampleRecord))
       (freshRemote [(''nightly'', ''<description>nightly build</description>'')]))))"
proof -
  have r: "fst (Resource_Read memJenkins ''2024-06-01T12:00:00Z'' (Data [] exampleRecord)
     (emptyResponse (Some exampleRecord))
     (freshRemote [(''nightly'', ''<description>nightly build</description>'')])) =
     \<lparr>Diagnostics = [ErrorDiagnostic ''Groovy Script Extraction Error''
        (''Failed to extract Groovy script from job 'nightly' config: '' @
         ''could not find start of Groovy script tag in XML'')],
      State = Some (exampleRecord\<lparr>GroovyScript := StringValue [],
       LastUpdated := StringValue ''2024-06-01T12:00:00Z''\<rparr>)\<rparr>"
    by (simp add: Resource_Read_def Let_def invoke_def memJenkins_def exampleRecord_def
        emptyResponse_def freshRemote_def HasError_Nil addError_def AddError_def quoted_def
        extract_description_only)
  show ?thesis
    unfolding r by (simp add: extract_description_only HasError_def)
qed

text \<open>
  C2, amended: when the record decodes without error, the existence check answers
  true and the configuration is fetched, but the script or the description cannot be
  extracted from it, \<open>Read\<close> still writes the record: a field that could not be
  extracted is the empty string, the other is the text extracted, \<open>name\<close> is the
  \<open>id\<close> and \<open>last_updated\<close> is \<open>now\<close>. For each failed extraction an error diagnostic is
  attached, so the response reports an error.
\<close>

theorem Read_decode_failure_amended:
  assumes "\<not> HasError (Append (Diagnostics resp) (getDiags reqState))"
      and "JobExists client (ValueString (ID (getValue reqState))) (world s) = (Inr True, w1)"
      and "GetJobConfig client (ValueString (ID (getValue reqState))) w1 = (Inr configXML, w2)"
      and "isl (extractGroovyScriptFromXML configXML) \<or>
           isl (extractDescriptionFromXML configXML)"
  shows "State (fst (Resource_Read client now reqState resp s)) =
           Some (getValue reqState
             \<lparr>Name := StringValue (ValueString (ID (getValue reqState))),
              Description := StringValue
                (case extractDescriptionFromXML configXML of Inl err \<Rightarrow> [] | Inr v \<Rightarrow> v),
              GroovyScript := StringValue
                (case extractGroovyScriptFromXML configXML of Inl err \<Rightarrow> [] | Inr v \<Rightarrow> v),
              LastUpdated := StringValue now\<rparr>) \<and>
         (case extractGroovyScriptFromXML configXML of
            Inl err \<Rightarrow> ErrorDiagnostic ''Groovy Script Extraction Error''
              (''Failed to extract Groovy script from job '' @
               quoted (ValueString (ID (getValue reqState))) @ '' config: '' @ err)
              \<in> set (Diagnostics (fst (Resource_Read client now reqState resp s)))
          | Inr v \<Rightarrow> True) \<and>
         (case extractDescriptionFromXML configXML of
            Inl err \<Rightarrow> ErrorDiagnostic ''Description Extraction Error''
              (''Failed to extract description from job '' @
               quoted (ValueString (ID (getValue reqState))) @ '' config: '' @ err)
              \<in> set (Diagnostics (fst (Resource_Read client now reqState resp s)))
          | Inr v \<Rightarrow> True) \<and>
         HasError (Diagnostics (fst (Resource_Read client now reqState resp s))) \<and>
         new_calls s (snd (Resource_Read client now reqState resp s)) =
           [(JobExistsCall (ValueString (ID (getValue reqState))), True),
            (GetJobConfigCall (ValueString (ID (getValue reqState))), True)]"
proof -
  note dec = Resource_Read_decoded[OF assms(1,2,3), of now]
  have g: "case extractGroovyScriptFromXML configXML of
            Inl err \<Rightarrow> ErrorDiagnostic ''Groovy Script Extraction Error''
              (''Failed to extract Groovy script from job '' @
               quoted (ValueString (ID (getValue reqState))) @ '' config: '' @ err)
              \<in> set (Diagnostics (fst (Resource_Read client now reqState resp s)))
          | Inr v \<Rightarrow> True"
    unfolding dec(3) by (simp split: sum.splits)
  have d: "case extractDescriptionFromXML configXML of
            Inl err \<Rightarrow> ErrorDiagnostic ''Description Extraction Error''
              (''Failed to extract description from job '' @
               quoted (ValueString (ID (getValue reqState))) @ '' config: '' @ err)
              \<in> set (Diagnostics (fst (Resource_Read client now reqState resp s)))
          | Inr v \<Rightarrow> True"
    unfolding dec(3) by (simp split: sum.splits)
  have "\<exists>x\<in>set (Diagnostics (fst (Resource_Read client now reqState resp s))).
          Severity x = SeverityError"
  proof (cases "extractGroovyScriptFromXML configXML")
    case (Inl err)
    with g show ?thesis by (auto intro: bexI[rotated])
  next
    case (Inr v)
    with assms(4) obtain err where "extractDescriptionFromXML configXML = Inl err"
      by (cases "extractDescriptionFromXML configXML") auto
    with d show ?thesis by (auto intro: bexI[rotated])
  qed
  then have "HasError (Diagnostics (fst (Resource_Read client now reqState resp s)))"
    by (simp add: HasError_set)
  with g d dec(1,2) show ?thesis by (simp add: new_calls_append)
qed

theorem Read_decode_failure_amended_witness:
  "\<not> HasError (Append (Diagnostics (emptyResponse (Some exampleRecord)))
        (getDiags (Data [] exampleRecord))) \<and>
   JobExists memJenkins (ValueString (ID (getValue (Data [] exampleRecord))))
     (world (freshRemote [(''nightly'', ''<description>nightly build</description>'')])) =
     (Inr True, [(''nightly'', ''<description>nightly build</description>'')]) \<and>
   GetJobConfig memJenkins (ValueString (ID (getValue (Data [] exampleRecord))))
     [(''nightly'', ''<description>nightly build</description>'')] =
     (Inr ''<description>nightly build</description>'',
      [(''nightly'', ''<description>nightly build</description>'')]) \<and>
   (isl (extractGroovyScriptFromXML ''<description>nightly build</description>'') \<or>
    isl (extractDescriptionFromXML ''<description>nightly build</description>'')) \<and>
   State (fst (Resource_Read memJenkins ''2024-06-01T12:00:00Z'' (Data [] exampleRecord)
     (emptyResponse (Some exampleRecord))
     (freshRemote [(''nightly'', ''<description>nightly build</description>'')]))) =
     Some (exampleRecord\<lparr>Name := StringValue ''nightly'',
       Description := StringValue ''nightly build'', GroovyScript := StringValue [],
       LastUpdated := StringValue ''2024-06-01T12:00:00Z''\<rparr>) \<and>
   HasError (Diagnostics (fst (Resource_Read memJenkins ''2024-06-01T12:00:00Z''
     (Data [] exampleRecord) (emptyResponse (Some exampleRecord))
     (freshRemote [(''nightly'', ''<description>nightly build</description>'')]))))"
proof -
  let ?doc = "''<description>nightly build</description>''"
  have v: "ValueString (ID (getValue (Data [] exampleRecord))) = ''nightly''"
    by (simp add: exampleRecord_def)
  have h1: "\<not> HasError (Append (Diagnostics (emptyResponse (Some exampleRecord)))
        (getDiags (Data [] exampleRecord)))"
    by (simp add: example_simps HasError_Nil)
  have h2: "JobExists memJenkins (ValueString (ID (getValue (Data [] exampleRecord))))
     (world (freshRemote [(''nightly'', ?doc)])) = (Inr True, [(''nightly'', ?doc)])"
    unfolding v by (simp add: memJenkins_def example_simps)
  have h3: "GetJobConfig memJenkins (ValueString (ID (getValue (Data [] exampleRecord))))
     [(''nightly'', ?doc)] = (Inr ?doc, [(''nightly'', ?doc)])"
    unfolding v by (simp add: memJenkins_def)
  have h4: "isl (extractGroovyScriptFromXML ?doc) \<or> isl (extractDescriptionFromXML ?doc)"
    by (simp add: extract_description_only)
  from Read_decode_failure_amended[OF h1 h2 h3 h4, of "''2024-06-01T12:00:00Z''"] h1 h2 h3 h4
  show ?thesis unfolding v by (simp add: extract_description_only exampleRecord_def)
qed

section \<open>C3: a read of a job that is gone\<close>

text \<open>
  C3: when the record decodes without error and the existence check of \<open>Read\<close> answers
  false, the resource is removed from the state, the response carries no error, and
  the existence check is the only remote call of the invocation: the configuration
  is not fetched and nothing is decoded.
\<close>

theorem Read_removes_missing_job:
  assumes "\<not> HasError (Append (Diagnostics resp) (getDiags reqState))"
      and "JobExists client (ValueString (ID (getValue reqState))) (world s) = (Inr False, w)"
  shows "State (fst (Resource_Read client now reqState resp s)) = None \<and>
         \<not> HasError (Diagnostics (fst (Resource_Read client now reqState resp s))) \<and>
         world (snd (Resource_Read client now reqState resp s)) = w \<and>
         new_calls s (snd (Resource_Read client now reqState resp s)) =
           [(JobExistsCall (ValueString (ID (getValue reqState))), True)]"
  using assms by (simp add: Resource_Read_absent new_calls_append)

theorem Read_removes_missing_job_witness:
  "\<not> HasError (Append (Diagnostics (emptyResponse (Some exampleRecord)))
        (getDiags (Data [] exampleRecord))) \<and>
   JobExists memJenkins (ValueString (ID (getValue (Data [] exampleRecord))))
     (world (freshRemote [])) = (Inr False, []) \<and>
   State (fst (Resource_Read memJenkins ''2024-06-01T12:00:00Z'' (Data [] exampleRecord)
     (emptyResponse (Some exampleRecord)) (freshRemote []))) = None \<and>
   new_calls (freshRemote []) (snd (Resource_Read memJenkins ''2024-06-01T12:00:00Z''
     (Data [] exampleRecord) (emptyResponse (Some exampleRecord)) (freshRemote []))) =
     [(JobExistsCall ''nightly'', True)]"
proof -
  have h1: "\<not> HasError (Append (Diagnostics (emptyResponse (Some exampleRecord)))
        (getDiags (Data [] exampleRecord)))"
    by (simp add: example_simps HasError_Nil)
  have h2: "JobExists memJenkins (ValueString (ID (getValue (Data [] exampleRecord))))
     (world (freshRemote [])) = (Inr False, [])"
    by (simp add: memJenkins_def example_simps)
  have id: "ValueString (ID (getValue (Data [] exampleRecord))) = ''nightly''"
    by (simp add: exampleRecord_def)
  from Read_removes_missing_job[OF h1 h2, of "''2024-06-01T12:00:00Z''"] h1 h2 id
  show ?thesis by simp
qed

section \<open>C5: creating a job that exists\<close>

text \<open>
  C5: when the plan decodes without error and the existence check of \<open>Create\<close> answers
  true, the response carries the error \<open>Job Already Exists\<close>, the state of the response
  is left as it was, and the existence check is the only remote call: \<open>CreateJob\<close> is
  not called and the server is as the existence check left it.
\<close>

theorem Create_existing_job_fails:
  assumes "\<not> HasError (Append (Diagnostics resp) (getDiags reqPlan))"
      and "JobExists client (ValueString (Name (getValue reqPlan))) (world s) = (Inr True, w)"
  shows "ErrorDiagnostic ''Job Already Exists''
           (''Jenkins job '' @ quoted (ValueString (Name (getValue reqPlan))) @
            '' already exists. Consider importing it or using a different name.'')
           \<in> set (Diagnostics (fst (Resource_Create client now reqPlan resp s))) \<and>
         HasError (Diagnostics (fst (Resource_Create client now reqPlan resp s))) \<and>
         State (fst (Resource_Create client now reqPlan resp s)) = State resp \<and>
         world (snd (Resource_Create client now reqPlan resp s)) = w \<and>
         new_calls s (snd (Resource_Create client now reqPlan resp s)) =
           [(JobExistsCall (ValueString (Name (getValue reqPlan))), True)]"
  using assms
  by (simp add: Resource_Create_exists new_calls_append addError_simps set_AddError
      HasError_AddError)

lemma first_Create_memJenkins:
  "Resource_Create memJenkins now (Data [] examplePlan) (emptyResponse None) (freshRemote []) =
     (\<lparr>Diagnostics = [],
       State = Some \<lparr>ID = StringValue ''nightly'', Name = StringValue ''nightly'',
         Description = StringValue (RawDescription
           (memJob ''nightly'' (buildPipelineConfigXML ''nightly build'' ''echo hi''))),
         GroovyScript = StringValue ''echo hi'', LastUpdated = StringValue now\<rparr>\<rparr>,
      \<lparr>world = [(''nightly'', buildPipelineConfigXML ''nightly build'' ''echo hi'')],
       calls = [(JobExistsCall ''nightly'', True),
                (CreateJobCall (buildPipelineConfigXML ''nightly build'' ''echo hi'') ''nightly'', True),
                (GetJobCall ''nightly'', True)]\<rparr>)"
  by (simp add: Resource_Create_def Let_def invoke_def memJenkins_def examplePlan_def
      emptyResponse_def freshRemote_def HasError_Nil memJob_def)

theorem Create_existing_job_fails_witness:
  "\<not> HasError (Append (Diagnostics (emptyResponse None)) (getDiags (Data [] examplePlan))) \<and>
   JobExists memJenkins (ValueString (Name (getValue (Data [] examplePlan))))
     (world (snd (Resource_Create memJenkins ''2024-06-01T12:00:00Z'' (Data [] examplePlan)
        (emptyResponse None) (freshRemote [])))) =
     (Inr True, [(''nightly'', buildPipelineConfigXML ''nightly build'' ''echo hi'')]) \<and>
   HasError (Diagnostics (fst (Resource_Create memJenkins ''2024-06-01T12:05:00Z''
     (Data [] examplePlan) (emptyResponse None)
     (snd (Resource_Create memJenkins ''2024-06-01T12:00:00Z'' (Data [] examplePlan)
        (emptyResponse None) (freshRemote [])))))) \<and>
   State (fst (Resource_Create memJenkins ''2024-06-01T12:05:00Z''
     (Data [] examplePlan) (emptyResponse None)
     (snd (Resource_Create memJenkins ''2024-06-01T12:00:00Z'' (Data [] examplePlan)
        (emptyResponse None) (freshRemote []))))) = None \<and>
   world (snd (Resource_Create memJenkins ''2024-06-01T12:05:00Z''
     (Data [] examplePlan) (emptyResponse None)
     (snd (Resource_Create memJenkins ''2024-06-01T12:00:00Z'' (Data [] examplePlan)
        (emptyResponse None) (freshRemote []))))) =
     [(''nightly'', buildPipelineConfigXML ''nightly build'' ''echo hi'')]"
proof -
  let ?s1 = "snd (Resource_Create memJenkins ''2024-06-01T12:00:00Z'' (Data [] examplePlan)
        (emptyResponse None) (freshRemote []))"
  have h1: "\<not> HasError (Append (Diagnostics (emptyResponse None))
        (getDiags (Data [] examplePlan)))"
    by (simp add: example_simps HasError_Nil)
  have h2: "JobExists memJenkins (ValueString (Name (getValue (Data [] examplePlan))))
     (world ?s1) = (Inr True, [(''nightly'', buildPipelineConfigXML ''nightly build'' ''echo hi'')])"
    by (simp add: first_Create_memJenkins) (simp add: memJenkins_def examplePlan_def)
  from Create_existing_job_fails[OF h1 h2, of "''2024-06-01T12:05:00Z''"] h1 h2
  show ?thesis by (simp add: example_simps)
qed

section \<open>C6: deleting\<close>

text \<open>
  C6: when the record decodes without error and the existence check of \<open>Delete\<close>
  succeeds, the response carries an error exactly when the job exists and \<open>DeleteJob\<close>
  fails; \<open>DeleteJob\<close> is called exactly when the job exists; and the state of the
  response is never touched. So a job that is already absent gives success without a
  call of the delete endpoint, and a failure of the delete is an error.
\<close>

theorem Delete_absent_is_success:
  assumes "\<not> HasError (Append (Diagnostics resp) (getDiags reqState))"
      and "JobExists client (ValueString (ID (getValue reqState))) (world s) = (Inr exists, w)"
  shows "HasError (Diagnostics (fst (Resource_Delete client reqState resp s))) =
           (exists \<and> isl (fst (DeleteJob client (ValueString (ID (getValue reqState))) w))) \<and>
         new_calls s (snd (Resource_Delete client reqState resp s)) =
           (if exists
            then [(JobExistsCall (ValueString (ID (getValue reqState))), True),
                  (DeleteJobCall (ValueString (ID (getValue reqState))),
                   \<not> isl (fst (DeleteJob client (ValueString (ID (getValue reqState))) w)))]
            else [(JobExistsCall (ValueString (ID (getValue reqState))), True)]) \<and>
         world (snd (Resource_Delete client reqState resp s)) =
           (if exists then snd (DeleteJob client (ValueString (ID (getValue reqState))) w)
            else w) \<and>
         State (fst (Resource_Delete client reqState resp s)) = State resp"
  using assms
  by (cases "DeleteJob client (ValueString (ID (getValue reqState))) w")
     (auto simp: Resource_Delete_def Let_def invoke_def new_calls_def addError_simps
        HasError_AddError split: sum.splits)

theorem Delete_absent_is_success_witness:
  "\<not> HasError (Append (Diagnostics (emptyResponse (Some exampleRecord)))
        (getDiags (Data [] exampleRecord))) \<and>
   JobExists memJenkins (ValueString (ID (getValue (Data [] exampleRecord))))
     (world (freshRemote [])) = (Inr False, []) \<and>
   \<not> HasError (Diagnostics (fst (Resource_Delete memJenkins (Data [] exampleRecord)
     (emptyResponse (Some exampleRecord)) (freshRemote [])))) \<and>
   new_calls (freshRemote []) (snd (Resource_Delete memJenkins (Data [] exampleRecord)
     (emptyResponse (Some exampleRecord)) (freshRemote []))) =
     [(JobExistsCall ''nightly'', True)] \<and>
   JobExists (memJenkins\<lparr>DeleteJob := \<lambda>name w. (Inl ''500'', w)\<rparr>)
     (ValueString (ID (getValue (Data [] exampleRecord))))
     (world (freshRemote [(''nightly'', [])])) = (Inr True, [(''nightly'', [])]) \<and>
   HasError (Diagnostics (fst (Resource_Delete
     (memJenkins\<lparr>DeleteJob := \<lambda>name w. (Inl ''500'', w)\<rparr>) (Data [] exampleRecord)
     (emptyResponse (Some exampleRecord)) (freshRemote [(''nightly'', [])])))) \<and>
   new_calls (freshRemote [(''nightly'', [])]) (snd (Resource_Delete
     (memJenkins\<lparr>DeleteJob := \<lambda>name w. (Inl ''500'', w)\<rparr>) (Data [] exampleRecord)
     (emptyResponse (Some exampleRecord)) (freshRemote [(''nightly'', [])]))) =
     [(JobExistsCall ''nightly'', True), (DeleteJobCall ''nightly'', False)]"
proof -
  let ?failing = "memJenkins\<lparr>DeleteJob := \<lambda>name w. (Inl ''500'', w)\<rparr>"
  have h1: "\<not> HasError (Append (Diagnostics (emptyResponse (Some exampleRecord)))
        (getDiags (Data [] exampleRecord)))"
    by (simp add: example_simps HasError_Nil)
  have h2: "JobExists memJenkins (ValueString (ID (getValue (Data [] exampleRecord))))
     (world (freshRemote [])) = (Inr False, [])"
    by (simp add: memJenkins_def example_simps)
  have h3: "JobExists ?failing (ValueString (ID (getValue (Data [] exampleRecord))))
     (world (freshRemote [(''nightly'', [])])) = (Inr True, [(''nightly'', [])])"
    by (simp add: memJenkins_def example_simps exampleRecord_def)
  have id: "ValueString (ID (getValue (Data [] exampleRecord))) = ''nightly''"
    by (simp add: exampleRecord_def)
  have del: "DeleteJob ?failing = (\<lambda>name w. (Inl ''500'', w))" by simp
  from Delete_absent_is_success[OF h1 h2] Delete_absent_is_success[OF h1 h3] h1 h2 h3
  show ?thesis unfolding id del by simp
qed

section \<open>C7: a data source read without identifier\<close>

text \<open>
  C7: when the configuration decodes without error and both \<open>id\<close> and \<open>name\<close> are null
  or unknown, the data source's \<open>Read\<close> adds the error \<open>Missing Identifier\<close>, writes no
  state, and returns the remote state it was given: the trace has no new call.
\<close>

theorem DataSource_Read_missing_identifier:
  assumes "\<not> HasError (Append (Diagnostics resp) (getDiags reqConfig))"
      and "IsNull (dsID (getValue reqConfig)) \<or> IsUnknown (dsID (getValue reqConfig))"
      and "IsNull (dsName (getValue reqConfig)) \<or> IsUnknown (dsName (getValue reqConfig))"
  shows "ErrorDiagnostic ''Missing Identifier''
           ''One of 'id' or 'name' must be provided to read the Jenkins Pipeline data source.''
           \<in> set (Diagnostics (fst (DataSource_Read client reqConfig resp s))) \<and>
         HasError (Diagnostics (fst (DataSource_Read client reqConfig resp s))) \<and>
         State (fst (DataSource_Read client reqConfig resp s)) = State resp \<and>
         snd (DataSource_Read client reqConfig resp s) = s \<and>
         new_calls s (snd (DataSource_Read client reqConfig resp s)) = []"
  using assms
  by (auto simp: DataSource_Read_def Let_def addError_simps set_AddError HasError_AddError
      new_calls_def)

theorem DataSource_Read_missing_identifier_witness:
  "\<not> HasError (Append (Diagnostics (emptyResponse None))
        (getDiags (Data [] (exampleConfig StringNull StringNull)))) \<and>
   (IsNull (dsID (getValue (Data [] (exampleConfig StringNull StringNull)))) \<or>
    IsUnknown (dsID (getValue (Data [] (exampleConfig StringNull StringNull))))) \<and>
   (IsNull (dsName (getValue (Data [] (exampleConfig StringNull StringNull)))) \<or>
    IsUnknown (dsName (getValue (Data [] (exampleConfig StringNull StringNull))))) \<and>
   HasError (Diagnostics (fst (DataSource_Read memJenkins
     (Data [] (exampleConfig StringNull StringNull)) (emptyResponse None)
     (freshRemote [(''nightly'', [])])))) \<and>
   calls (snd (DataSource_Read memJenkins
     (Data [] (exampleConfig StringNull StringNull)) (emptyResponse None)
     (freshRemote [(''nightly'', [])]))) = []"
proof -
  have h1: "\<not> HasError (Append (Diagnostics (emptyResponse None))
        (getDiags (Data [] (exampleConfig StringNull StringNull))))"
    by (simp add: example_simps HasError_Nil)
  have h2: "IsNull (dsID (getValue (Data [] (exampleConfig StringNull StringNull)))) \<or>
    IsUnknown (dsID (getValue (Data [] (exampleConfig StringNull StringNull))))"
    by (simp add: exampleConfig_def)
  have h3: "IsNull (dsName (getValue (Data [] (exampleConfig StringNull StringNull)))) \<or>
    IsUnknown (dsName (getValue (Data [] (exampleConfig StringNull StringNull))))"
    by (simp add: exampleConfig_def)
  from DataSource_Read_missing_identifier[OF h1 h2 h3, of memJenkins
      "freshRemote [(''nightly'', [])]"] h1 h2 h3
  show ?thesis by (simp add: example_simps)
qed

section \<open>C4: a data source read of a job that does not exist\<close>

text \<open>
  gojenkins reports a job that does not exist as an error of \<open>GetJob\<close> whose message is
  the status \<open>404\<close>; the data source recognises it by \<open>404\<close> or \<open>no such job\<close> in the
  message.

  C4: when the configuration decodes without error, \<open>jobName\<close> is the identifier it
  supplies, and \<open>GetJob\<close> fails with such a message, the data source's \<open>Read\<close> adds the
  error \<open>Jenkins Job Not Found\<close> and writes no state. The resource's \<open>Read\<close>, when its
  existence check answers false, removes the record and reports no error.
\<close>

theorem DataSource_Read_missing_job_is_error:
  assumes "\<not> HasError (Append (Diagnostics resp) (getDiags reqConfig))"
      and "dsID (getValue reqConfig) = StringValue jobName \<or>
           (IsNull (dsID (getValue reqConfig)) \<or> IsUnknown (dsID (getValue reqConfig))) \<and>
           dsName (getValue reqConfig) = StringValue jobName"
      and "GetJob client jobName (world s) = (Inl err, w)"
      and "strings_Contains err ''404'' \<or> strings_Contains err ''no such job''"
      and "\<not> HasError (Append (Diagnostics rresp) (getDiags reqState))"
      and "JobExists client (ValueString (ID (getValue reqState))) (world rs) = (Inr False, rw)"
  shows "ErrorDiagnostic ''Jenkins Job Not Found''
           (''No Jenkins Pipeline job found with name/ID: '' @ quoted jobName @
            ''. Error: '' @ err)
           \<in> set (Diagnostics (fst (DataSource_Read client reqConfig resp s))) \<and>
         HasError (Diagnostics (fst (DataSource_Read client reqConfig resp s))) \<and>
         State (fst (DataSource_Read client reqConfig resp s)) = State resp \<and>
         new_calls s (snd (DataSource_Read client reqConfig resp s)) =
           [(GetJobCall jobName, False)] \<and>
         State (fst (Resource_Read client now reqState rresp rs)) = None \<and>
         \<not> HasError (Diagnostics (fst (Resource_Read client now reqState rresp rs)))"
proof -
  have key: "(if \<not> IsNull (dsID (getValue reqConfig)) \<and> \<not> IsUnknown (dsID (getValue reqConfig))
              then Some (ValueString (dsID (getValue reqConfig)))
              else if \<not> IsNull (dsName (getValue reqConfig)) \<and>
                      \<not> IsUnknown (dsName (getValue reqConfig))
              then Some (ValueString (dsName (getValue reqConfig)))
              else None) = Some jobName"
    using assms(2) by auto
  have ds: "DataSource_Read client reqConfig resp s =
          (addError ''Jenkins Job Not Found''
             (''No Jenkins Pipeline job found with name/ID: '' @ quoted jobName @
              ''. Error: '' @ err)
             (resp\<lparr>Diagnostics := Append (Diagnostics resp) (getDiags reqConfig)\<rparr>),
           \<lparr>world = w, calls = calls s @ [(GetJobCall jobName, False)]\<rparr>)"
    unfolding DataSource_Read_def Let_def key
    using assms(1,3,4) by (simp add: invoke_def)
  show ?thesis
    unfolding ds Resource_Read_absent[OF assms(5,6)]
    using assms(5)
    by (simp add: addError_simps set_AddError HasError_AddError new_calls_append)
qed

theorem DataSource_Read_missing_job_is_error_witness:
  "\<not> HasError (Append (Diagnostics (emptyResponse None))
        (getDiags (Data [] (exampleConfig StringNull (StringValue ''nightly''))))) \<and>
   (dsID (getValue (Data [] (exampleConfig StringNull (StringValue ''nightly'')))) =
      StringValue ''nightly'' \<or>
    (IsNull (dsID (getValue (Data [] (exampleConfig StringNull (StringValue ''nightly''))))) \<or>
     IsUnknown (dsID (getValue (Data [] (exampleConfig StringNull (StringValue ''nightly'')))))) \<and>
    dsName (getValue (Data [] (exampleConfig StringNull (StringValue ''nightly'')))) =
      StringValue ''nightly'') \<and>
   GetJob memJenkins ''nightly'' (world (freshRemote [])) = (Inl ''404'', []) \<and>
   (strings_Contains ''404'' ''404'' \<or> strings_Contains ''404'' ''no such job'') \<and>
   \<not> HasError (Append (Diagnostics (emptyResponse (Some exampleRecord)))
        (getDiags (Data [] exampleRecord))) \<and>
   JobExists memJenkins (ValueString (ID (getValue (Data [] exampleRecord))))
     (world (freshRemote [])) = (Inr False, []) \<and>
   HasError (Diagnostics (fst (DataSource_Read memJenkins
     (Data [] (exampleConfig StringNull (StringValue ''nightly''))) (emptyResponse None)
     (freshRemote [])))) \<and>
   State (fst (DataSource_Read memJenkins
     (Data [] (exampleConfig StringNull (StringValue ''nightly''))) (emptyResponse None)
     (freshRemote []))) = None \<and>
   State (fst (Resource_Read memJenkins ''2024-06-01T12:00:00Z'' (Data [] exampleRecord)
     (emptyResponse (Some exampleRecord)) (freshRemote []))) = None \<and>
   \<not> HasError (Diagnostics (fst (Resource_Read memJenkins ''2024-06-01T12:00:00Z''
     (Data [] exampleRecord) (emptyResponse (Some exampleRecord)) (freshRemote []))))"
proof -
  have h1: "\<not> HasError (Append (Diagnostics (emptyResponse None))
        (getDiags (Data [] (exampleConfig StringNull (StringValue ''nightly'')))))"
    by (simp add: example_simps HasError_Nil)
  have h2: "dsID (getValue (Data [] (exampleConfig StringNull (StringValue ''nightly'')))) =
      StringValue ''nightly'' \<or>
    (IsNull (dsID (getValue (Data [] (exampleConfig StringNull (StringValue ''nightly''))))) \<or>
     IsUnknown (dsID (getValue (Data [] (exampleConfig StringNull (StringValue ''nightly'')))))) \<and>
    dsName (getValue (Data [] (exampleConfig StringNull (StringValue ''nightly'')))) =
      StringValue ''nightly''"
    by (simp add: exampleConfig_def)
  have h3: "GetJob memJenkins ''nightly'' (world (freshRemote [])) = (Inl ''404'', [])"
    by (simp add: memJenkins_def example_simps)
  have h4: "strings_Contains ''404'' ''404'' \<or> strings_Contains ''404'' ''no such job''"
    by (simp add: strings_Contains_def strings_Index.simps(2))
  have h5: "\<not> HasError (Append (Diagnostics (emptyResponse (Some exampleRecord)))
        (getDiags (Data [] exampleRecord)))"
    by (simp add: example_simps HasError_Nil)
  have h6: "JobExists memJenkins (ValueString (ID (getValue (Data [] exampleRecord))))
     (world (freshRemote [])) = (Inr False, [])"
    by (simp add: memJenkins_def example_simps)
  from DataSource_Read_missing_job_is_error[OF h1 h2 h3 h4 h5 h6, of "''2024-06-01T12:00:00Z''"]
    h1 h2 h3 h4 h5 h6
  show ?thesis by (simp add: example_simps)
qed

section \<open>C10: a data source read with both identifiers\<close>

lemma DataSource_Read_by_id:
  assumes id: "dsID (getValue reqConfig) = StringValue i"
  shows "DataSource_Read client (Data (getDiags reqConfig) (getValue reqConfig\<lparr>dsName := other\<rparr>))
           resp s = DataSource_Read client reqConfig resp s"
  using id by (simp add: DataSource_Read_def Let_def split: prod.splits sum.splits)

lemma DataSource_Read_Diagnostics:
  assumes d: "d \<in> set (Diagnostics (fst (DataSource_Read client reqConfig resp s)))"
      and id: "dsID (getValue reqConfig) = StringValue i"
  shows "d \<in> set (Append (Diagnostics resp) (getDiags reqConfig)) \<or>
         Summary d \<in> {''Jenkins Job Not Found'', ''Jenkins Job Read Error'',
           ''Jenkins Job Config Read Error'', ''Groovy Script Extraction Error'',
           ''Description Extraction Error''}"
proof (cases "HasError (Append (Diagnostics resp) (getDiags reqConfig))")
  case True
  with d show ?thesis by (simp add: DataSource_Read_def Let_def)
next
  case False
  obtain r1 w1 where g: "GetJob client i (world s) = (r1, w1)" by force
  show ?thesis
  proof (cases r1)
    case (Inl err)
    with d id g False show ?thesis
      by (auto simp: DataSource_Read_def Let_def invoke_def addError_simps set_AddError
          split: if_splits)
  next
    case (Inr job)
    obtain r2 w2 where c: "GetConfig client job w1 = (r2, w2)" by force
    show ?thesis
    proof (cases r2)
      case (Inl err)
      with d id g c False Inr show ?thesis
        by (auto simp: DataSource_Read_def Let_def invoke_def addError_simps set_AddError)
    next
      case xml: (Inr xml)
      from d id g c False Inr xml show ?thesis
        by (cases "extractGroovyScriptFromXML xml"; cases "extractDescriptionFromXML xml")
           (auto simp: DataSource_Read_def Let_def invoke_def addError_simps set_AddError
              split_def)
    qed
  qed
qed

lemma DataSource_Read_first_call:
  assumes "\<not> HasError (Append (Diagnostics resp) (getDiags reqConfig))"
      and "dsID (getValue reqConfig) = StringValue i"
  shows "map fst (take 1 (new_calls s (snd (DataSource_Read client reqConfig resp s)))) =
           [GetJobCall i]"
proof -
  obtain r1 w1 where g: "GetJob client i (world s) = (r1, w1)" by force
  show ?thesis
  proof (cases r1)
    case (Inl err)
    with assms g show ?thesis
      by (simp add: DataSource_Read_def Let_def invoke_def new_calls_def)
  next
    case (Inr job)
    obtain r2 w2 where c: "GetConfig client job w1 = (r2, w2)" by force
    obtain r3 w3 where b: "GetLastCompletedBuild client job w2 = (r3, w3)" by force
    from assms g c b Inr show ?thesis
      by (cases r2; cases r3)
         (simp_all add: DataSource_Read_def Let_def invoke_def new_calls_def split_def)
  qed
qed

lemma DataSource_Read_success:
  assumes "\<not> HasError (Append (Diagnostics resp) (getDiags reqConfig))"
      and "dsID (getValue reqConfig) = StringValue i"
      and "GetJob client i (world s) = (Inr job, w1)"
      and "GetConfig client job w1 = (Inr xml, w2)"
  shows "\<exists>m. State (fst (DataSource_Read client reqConfig resp s)) = Some m \<and>
           dsID m = StringValue (RawName job) \<and> dsName m = StringValue (RawName job)"
  using assms
  by (auto simp: DataSource_Read_def Let_def invoke_def addError_simps
      split: prod.splits sum.splits if_splits)

text \<open>
  C10: when the configuration decodes without error and supplies both \<open>id\<close> and \<open>name\<close>,
  the data source's \<open>Read\<close> adds no \<open>Missing Identifier\<close> error; its result does not
  depend on \<open>name\<close> (any other value of \<open>name\<close> gives the same response and the same
  remote state); its first remote call is \<open>GetJob\<close> with the value of \<open>id\<close>; and when
  \<open>GetJob\<close> and the fetch of the configuration succeed, the state written has both
  \<open>id\<close> and \<open>name\<close> equal to the name the server reports for the job.
\<close>

theorem DataSource_Read_id_takes_precedence:
  assumes "\<not> HasError (Append (Diagnostics resp) (getDiags reqConfig))"
      and "dsID (getValue reqConfig) = StringValue i"
      and "dsName (getValue reqConfig) = StringValue n"
  shows "ErrorDiagnostic ''Missing Identifier''
           ''One of 'id' or 'name' must be provided to read the Jenkins Pipeline data source.''
           \<notin> set (Diagnostics (fst (DataSource_Read client reqConfig resp s))) \<and>
         DataSource_Read client
           (Data (getDiags reqConfig) (getValue reqConfig\<lparr>dsName := other\<rparr>)) resp s =
           DataSource_Read client reqConfig resp s \<and>
         map fst (take 1 (new_calls s (snd (DataSource_Read client reqConfig resp s)))) =
           [GetJobCall i] \<and>
         (GetJob client i (world s) = (Inr job, w1) \<longrightarrow>
          GetConfig client job w1 = (Inr xml, w2) \<longrightarrow>
          (\<exists>m. State (fst (DataSource_Read client reqConfig resp s)) = Some m \<and>
             dsID m = StringValue (RawName job) \<and> dsName m = StringValue (RawName job)))"
proof (intro conjI impI)
  let ?missing = "ErrorDiagnostic ''Missing Identifier''
    ''One of 'id' or 'name' must be provided to read the Jenkins Pipeline data source.''"
  show "?missing \<notin> set (Diagnostics (fst (DataSource_Read client reqConfig resp s)))"
  proof
    assume "?missing \<in> set (Diagnostics (fst (DataSource_Read client reqConfig resp s)))"
    from DataSource_Read_Diagnostics[OF this assms(2)]
    have "?missing \<in> set (Append (Diagnostics resp) (getDiags reqConfig))" by simp
    moreover have "Severity ?missing = SeverityError" by simp
    ultimately have "HasError (Append (Diagnostics resp) (getDiags reqConfig))"
      unfolding HasError_set by (rule bexI[rotated])
    with assms(1) show False by simp
  qed
  show "DataSource_Read client
           (Data (getDiags reqConfig) (getValue reqConfig\<lparr>dsName := other\<rparr>)) resp s =
           DataSource_Read client reqConfig resp s"
    by (rule DataSource_Read_by_id[OF assms(2)])
  show "map fst (take 1 (new_calls s (snd (DataSource_Read client reqConfig resp s)))) =
           [GetJobCall i]"
    by (rule DataSource_Read_first_call[OF assms(1,2)])
  show "\<exists>m. State (fst (DataSource_Read client reqConfig resp s)) = Some m \<and>
             dsID m = StringValue (RawName job) \<and> dsName m = StringValue (RawName job)"
    if "GetJob client i (world s) = (Inr job, w1)" and "GetConfig client job w1 = (Inr xml, w2)"
    using that by (rule DataSource_Read_success[OF assms(1,2)])
qed

theorem DataSource_Read_id_takes_precedence_witness:
  "\<not> HasError (Append (Diagnostics (emptyResponse None))
        (getDiags (Data [] (exampleConfig (StringValue ''nightly'') (StringValue ''weekly''))))) \<and>
   dsID (getValue (Data [] (exampleConfig (StringValue ''nightly'') (StringValue ''weekly'')))) =
     StringValue ''nightly'' \<and>
   dsName (getValue (Data [] (exampleConfig (StringValue ''nightly'') (StringValue ''weekly'')))) =
     StringValue ''weekly'' \<and>
   GetJob memJenkins ''nightly''
     (world (freshRemote [(''nightly'', buildPipelineConfigXML ''nightly build'' ''echo hi'')])) =
     (Inr (memJob ''nightly'' (buildPipelineConfigXML ''nightly build'' ''echo hi'')),
      [(''nightly'', buildPipelineConfigXML ''nightly build'' ''echo hi'')]) \<and>
   GetConfig memJenkins (memJob ''nightly'' (buildPipelineConfigXML ''nightly build'' ''echo hi''))
     [(''nightly'', buildPipelineConfigXML ''nightly build'' ''echo hi'')] =
     (Inr (buildPipelineConfigXML ''nightly build'' ''echo hi''),
      [(''nightly'', buildPipelineConfigXML ''nightly build'' ''echo hi'')]) \<and>
   map fst (take 1 (new_calls
     (freshRemote [(''nightly'', buildPipelineConfigXML ''nightly build'' ''echo hi'')])
     (snd (DataSource_Read memJenkins
       (Data [] (exampleConfig (StringValue ''nightly'') (StringValue ''weekly'')))
       (emptyResponse None)
       (freshRemote [(''nightly'', buildPipelineConfigXML ''nightly build'' ''echo hi'')]))))) =
     [GetJobCall ''nightly''] \<and>
   (\<exists>m. State (fst (DataSource_Read memJenkins
       (Data [] (exampleConfig (StringValue ''nightly'') (StringValue ''weekly'')))
       (emptyResponse None)
       (freshRemote [(''nightly'', buildPipelineConfigXML ''nightly build'' ''echo hi'')]))) =
       Some m \<and>
     dsID m = StringValue ''nightly'' \<and> dsName m = StringValue ''nightly'')"
proof -
  let ?cfg = "Data [] (exampleConfig (StringValue ''nightly'') (StringValue ''weekly''))"
  let ?xml = "buildPipelineConfigXML ''nightly build'' ''echo hi''"
  have h1: "\<not> HasError (Append (Diagnostics (emptyResponse None)) (getDiags ?cfg))"
    by (simp add: example_simps HasError_Nil)
  have h2: "dsID (getValue ?cfg) = StringValue ''nightly''"
    by (simp add: exampleConfig_def)
  have h3: "dsName (getValue ?cfg) = StringValue ''weekly''"
    by (simp add: exampleConfig_def)
  have h4: "GetJob memJenkins ''nightly'' (world (freshRemote [(''nightly'', ?xml)])) =
     (Inr (memJob ''nightly'' ?xml), [(''nightly'', ?xml)])"
    by (simp add: memJenkins_def example_simps)
  have h5: "GetConfig memJenkins (memJob ''nightly'' ?xml) [(''nightly'', ?xml)] =
     (Inr ?xml, [(''nightly'', ?xml)])"
    by (simp add: memJenkins_def memJob_def)
  have name: "RawName (memJob ''nightly'' ?xml) = ''nightly''"
    by (simp add: memJob_def)
  from DataSource_Read_id_takes_precedence[OF h1 h2 h3, of memJenkins
      "freshRemote [(''nightly'', ?xml)]" _ "memJob ''nightly'' ?xml" "[(''nightly'', ?xml)]"
      ?xml "[(''nightly'', ?xml)]"] h1 h2 h3 h4 h5
  show ?thesis unfolding name by blast
qed

section \<open>C8: updating\<close>

lemma Resource_Update_plan_name:
  "Resource_Update client now (Data (getDiags reqPlan) (getValue reqPlan\<lparr>Name := other\<rparr>))
     reqState resp s = Resource_Update client now reqPlan reqState resp s"
  by (simp add: Resource_Update_def Let_def)

lemma Resource_Update_calls:
  "list_all (\<lambda>e. call_name (fst e) = ValueString (ID (getValue reqState)))
     (new_calls s (snd (Resource_Update client now reqPlan reqState resp s)))"
proof -
  let ?id = "ValueString (ID (getValue reqState))"
  let ?xml = "buildPipelineConfigXML (ValueString (Description (getValue reqPlan)))
     (ValueString (GroovyScript (getValue reqPlan)))"
  obtain r1 w1 where u: "UpdateJob client ?id ?xml (world s) = (r1, w1)" by force
  obtain r2 w2 where g: "GetJob client ?id w1 = (r2, w2)" by force
  from u g show ?thesis
    by (cases r1; cases r2)
       (simp_all add: Resource_Update_def Let_def invoke_def new_calls_def)
qed

lemma Resource_Update_success:
  assumes ok: "\<not> HasError (Append (Append (Diagnostics resp) (getDiags reqPlan))
                   (getDiags reqState))"
      and u: "UpdateJob client (ValueString (ID (getValue reqState)))
                (buildPipelineConfigXML (ValueString (Description (getValue reqPlan)))
                   (ValueString (GroovyScript (getValue reqPlan)))) (world s) = (Inr updated, w1)"
      and g: "GetJob client (ValueString (ID (getValue reqState))) w1 = (Inr job, w2)"
  shows "Resource_Update client now reqPlan reqState resp s =
           (resp\<lparr>Diagnostics := Append (Append (Diagnostics resp) (getDiags reqPlan))
                    (getDiags reqState),
                 State := Some (getValue reqState
                   \<lparr>Description := StringValue (RawDescription job),
                    GroovyScript := StringValue (ValueString (GroovyScript (getValue reqPlan))),
                    LastUpdated := StringValue now\<rparr>)\<rparr>,
            \<lparr>world = w2,
             calls = calls s @
               [(UpdateJobCall (ValueString (ID (getValue reqState)))
                   (buildPipelineConfigXML (ValueString (Description (getValue reqPlan)))
                      (ValueString (GroovyScript (getValue reqPlan)))), True),
                (GetJobCall (ValueString (ID (getValue reqState))), True)]\<rparr>)"
  using ok by (simp add: Resource_Update_def Let_def invoke_def u g)

text \<open>
  C8: for every invocation, the result of \<open>Update\<close> does not depend on the plan's name,
  and every remote call it makes is for the job named by the state's \<open>id\<close>. When plan
  and state decode without error and \<open>UpdateJob\<close> and \<open>GetJob\<close> succeed, the calls are
  these two, and the record written has the description \<open>GetJob\<close> reported after the
  update, the script of the plan, \<open>now\<close> as \<open>last_updated\<close>, and the \<open>id\<close> and \<open>name\<close> of
  the state.
\<close>

theorem Update_uses_state_id:
  "Resource_Update client now
     (Data (getDiags reqPlan) (getValue reqPlan\<lparr>Name := other\<rparr>)) reqState resp s =
     Resource_Update client now reqPlan reqState resp s \<and>
   list_all (\<lambda>e. call_name (fst e) = ValueString (ID (getValue reqState)))
     (new_calls s (snd (Resource_Update client now reqPlan reqState resp s))) \<and>
   (\<not> HasError (Append (Append (Diagnostics resp) (getDiags reqPlan)) (getDiags reqState)) \<longrightarrow>
    UpdateJob client (ValueString (ID (getValue reqState)))
      (buildPipelineConfigXML (ValueString (Description (getValue reqPlan)))
         (ValueString (GroovyScript (getValue reqPlan)))) (world s) = (Inr updated, w1) \<longrightarrow>
    GetJob client (ValueString (ID (getValue reqState))) w1 = (Inr job, w2) \<longrightarrow>
    map fst (new_calls s (snd (Resource_Update client now reqPlan reqState resp s))) =
      [UpdateJobCall (ValueString (ID (getValue reqState)))
         (buildPipelineConfigXML (ValueString (Description (getValue reqPlan)))
            (ValueString (GroovyScript (getValue reqPlan)))),
       GetJobCall (ValueString (ID (getValue reqState)))] \<and>
    (\<exists>m. State (fst (Resource_Update client now reqPlan reqState resp s)) = Some m \<and>
       Description m = StringValue (RawDescription job) \<and>
       GroovyScript m = StringValue (ValueString (GroovyScript (getValue reqPlan))) \<and>
       LastUpdated m = StringValue now \<and>
       ID m = ID (getValue reqState) \<and>
       Name m = Name (getValue reqState)))"
proof (intro conjI impI)
  show "Resource_Update client now
           (Data (getDiags reqPlan) (getValue reqPlan\<lparr>Name := other\<rparr>)) reqState resp s =
           Resource_Update client now reqPlan reqState resp s"
    by (rule Resource_Update_plan_name)
  show "list_all (\<lambda>e. call_name (fst e) = ValueString (ID (getValue reqState)))
           (new_calls s (snd (Resource_Update client now reqPlan reqState resp s)))"
    by (rule Resource_Update_calls)
next
  assume a: "\<not> HasError (Append (Append (Diagnostics resp) (getDiags reqPlan))
                (getDiags reqState))"
    "UpdateJob client (ValueString (ID (getValue reqState)))
       (buildPipelineConfigXML (ValueString (Description (getValue reqPlan)))
          (ValueString (GroovyScript (getValue reqPlan)))) (world s) = (Inr updated, w1)"
    "GetJob client (ValueString (ID (getValue reqState))) w1 = (Inr job, w2)"
  note eq = Resource_Update_success[OF a, of now]
  show "map fst (new_calls s (snd (Resource_Update client now reqPlan reqState resp s))) =
           [UpdateJobCall (ValueString (ID (getValue reqState)))
              (buildPipelineConfigXML (ValueString (Description (getValue reqPlan)))
                 (ValueString (GroovyScript (getValue reqPlan)))),
            GetJobCall (ValueString (ID (getValue reqState)))]"
    unfolding eq by (simp add: new_calls_append)
  show "\<exists>m. State (fst (Resource_Update client now reqPlan reqState resp s)) = Some m \<and>
            Description m = StringValue (RawDescription job) \<and>
            GroovyScript m = StringValue (ValueString (GroovyScript (getValue reqPlan))) \<and>
            LastUpdated m = StringValue now \<and>
            ID m = ID (getValue reqState) \<and>
            Name m = Name (getValue reqState)"
    unfolding eq by simp
qed

theorem Update_uses_state_id_witness:
  "\<not> HasError (Append (Append (Diagnostics (emptyResponse (Some exampleRecord)))
        (getDiags (Data [] examplePlan))) (getDiags (Data [] exampleRecord))) \<and>
   UpdateJob memJenkins (ValueString (ID (getValue (Data [] exampleRecord))))
     (buildPipelineConfigXML (ValueString (Description (getValue (Data [] examplePlan))))
        (ValueString (GroovyScript (getValue (Data [] examplePlan)))))
     (world (freshRemote [(''nightly'', [])])) =
     (Inr (memJob ''nightly'' (buildPipelineConfigXML ''nightly build'' ''echo hi'')),
      [(''nightly'', buildPipelineConfigXML ''nightly build'' ''echo hi''), (''nightly'', [])]) \<and>
   GetJob memJenkins (ValueString (ID (getValue (Data [] exampleRecord))))
     [(''nightly'', buildPipelineConfigXML ''nightly build'' ''echo hi''), (''nightly'', [])] =
     (Inr (memJob ''nightly'' (buildPipelineConfigXML ''nightly build'' ''echo hi'')),
      [(''nightly'', buildPipelineConfigXML ''nightly build'' ''echo hi''), (''nightly'', [])]) \<and>
   map fst (new_calls (freshRemote [(''nightly'', [])])
     (snd (Resource_Update memJenkins ''2024-06-01T12:00:00Z'' (Data [] examplePlan)
        (Data [] exampleRecord) (emptyResponse (Some exampleRecord))
        (freshRemote [(''nightly'', [])])))) =
     [UpdateJobCall ''nightly'' (buildPipelineConfigXML ''nightly build'' ''echo hi''),
      GetJobCall ''nightly''] \<and>
   (\<exists>m. State (fst (Resource_Update memJenkins ''2024-06-01T12:00:00Z'' (Data [] examplePlan)
        (Data [] exampleRecord) (emptyResponse (Some exampleRecord))
        (freshRemote [(''nightly'', [])]))) = Some m \<and>
      GroovyScript m = StringValue ''echo hi'' \<and>
      LastUpdated m = StringValue ''2024-06-01T12:00:00Z'' \<and>
      ID m = StringValue ''nightly'' \<and> Name m = StringValue ''nightly'')"
proof -
  let ?xml = "buildPipelineConfigXML ''nightly build'' ''echo hi''"
  have v: "ValueString (ID (getValue (Data [] exampleRecord))) = ''nightly''"
    "ValueString (Description (getValue (Data [] examplePlan))) = ''nightly build''"
    "ValueString (GroovyScript (getValue (Data [] examplePlan))) = ''echo hi''"
    "ID (getValue (Data [] exampleRecord)) = StringValue ''nightly''"
    "Name (getValue (Data [] exampleRecord)) = StringValue ''nightly''"
    "GroovyScript (getValue (Data [] examplePlan)) = StringValue ''echo hi''"
    by (simp_all add: exampleRecord_def examplePlan_def)
  have h1: "\<not> HasError (Append (Append (Diagnostics (emptyResponse (Some exampleRecord)))
        (getDiags (Data [] examplePlan))) (getDiags (Data [] exampleRecord)))"
    by (simp add: example_simps HasError_Nil)
  have h2: "UpdateJob memJenkins (ValueString (ID (getValue (Data [] exampleRecord))))
     (buildPipelineConfigXML (ValueString (Description (getValue (Data [] examplePlan))))
        (ValueString (GroovyScript (getValue (Data [] examplePlan)))))
     (world (freshRemote [(''nightly'', [])])) =
     (Inr (memJob ''nightly'' ?xml), [(''nightly'', ?xml), (''nightly'', [])])"
    unfolding v by (simp add: memJenkins_def example_simps)
  have h3: "GetJob memJenkins (ValueString (ID (getValue (Data [] exampleRecord))))
     [(''nightly'', ?xml), (''nightly'', [])] =
     (Inr (memJob ''nightly'' ?xml), [(''nightly'', ?xml), (''nightly'', [])])"
    unfolding v by (simp add: memJenkins_def)
  from Update_uses_state_id[where client = memJenkins and now = "''2024-06-01T12:00:00Z''"
      and reqPlan = "Data [] examplePlan" and reqState = "Data [] exampleRecord"
      and resp = "emptyResponse (Some exampleRecord)"
      and s = "freshRemote [(''nightly'', [])]" and other = "StringValue ''weekly''"
      and updated = "memJob ''nightly'' ?xml" and job = "memJob ''nightly'' ?xml"
      and ?w1.0 = "[(''nightly'', ?xml), (''nightly'', [])]"
      and ?w2.0 = "[(''nightly'', ?xml), (''nightly'', [])]"] h1 h2 h3
  show ?thesis unfolding v ValueString.simps by blast
qed

section \<open>C9: no record is written after a failed call\<close>

lemma Resource_Create_failed_call:
  assumes "list_ex (\<lambda>e. \<not> snd e) (new_calls s (snd (Resource_Create client now reqPlan resp s)))"
  shows "HasError (Diagnostics (fst (Resource_Create client now reqPlan resp s))) \<and>
         State (fst (Resource_Create client now reqPlan resp s)) = State resp \<and>
         \<not> snd (last (calls (snd (Resource_Create client now reqPlan resp s))))"
proof -
  let ?name = "ValueString (Name (getValue reqPlan))"
  let ?xml = "buildPipelineConfigXML (ValueString (Description (getValue reqPlan)))
     (ValueString (GroovyScript (getValue reqPlan)))"
  obtain r1 w1 where c1: "JobExists client ?name (world s) = (r1, w1)" by force
  obtain r2 w2 where c2: "CreateJob client ?xml ?name w1 = (r2, w2)" by force
  obtain r3 w3 where c3: "GetJob client ?name w2 = (r3, w3)" by force
  from assms c1 c2 c3 show ?thesis
    by (cases r1; cases r2; cases r3)
       (auto simp: Resource_Create_def Let_def invoke_def new_calls_def addError_simps
          HasError_AddError split: if_splits)
qed

lemma Resource_Read_failed_call:
  assumes "list_ex (\<lambda>e. \<not> snd e) (new_calls s (snd (Resource_Read client now reqState resp s)))"
  shows "HasError (Diagnostics (fst (Resource_Read client now reqState resp s))) \<and>
         State (fst (Resource_Read client now reqState resp s)) = State resp \<and>
         \<not> snd (last (calls (snd (Resource_Read client now reqState resp s))))"
proof -
  let ?id = "ValueString (ID (getValue reqState))"
  obtain r1 w1 where c1: "JobExists client ?id (world s) = (r1, w1)" by force
  obtain r2 w2 where c2: "GetJobConfig client ?id w1 = (r2, w2)" by force
  from assms c1 c2 show ?thesis
    by (cases r1; cases r2)
       (auto simp: Resource_Read_def Let_def invoke_def new_calls_def addError_simps
          HasError_AddError split_def split: if_splits)
qed

lemma Resource_Update_failed_call:
  assumes "list_ex (\<lambda>e. \<not> snd e)
             (new_calls s (snd (Resource_Update client now reqPlan reqState resp s)))"
  shows "HasError (Diagnostics (fst (Resource_Update client now reqPlan reqState resp s))) \<and>
         State (fst (Resource_Update client now reqPlan reqState resp s)) = State resp \<and>
         \<not> snd (last (calls (snd (Resource_Update client now reqPlan reqState resp s))))"
proof -
  let ?id = "ValueString (ID (getValue reqState))"
  let ?xml = "buildPipelineConfigXML (ValueString (Description (getValue reqPlan)))
     (ValueString (GroovyScript (getValue reqPlan)))"
  obtain r1 w1 where c1: "UpdateJob client ?id ?xml (world s) = (r1, w1)" by force
  obtain r2 w2 where c2: "GetJob client ?id w1 = (r2, w2)" by force
  from assms c1 c2 show ?thesis
    by (cases r1; cases r2)
       (auto simp: Resource_Update_def Let_def invoke_def new_calls_def addError_simps
          HasError_AddError split: if_splits)
qed

lemma Resource_Delete_failed_call:
  assumes "list_ex (\<lambda>e. \<not> snd e) (new_calls s (snd (Resource_Delete client reqState resp s)))"
  shows "HasError (Diagnostics (fst (Resource_Delete client reqState resp s))) \<and>
         State (fst (Resource_Delete client reqState resp s)) = State resp \<and>
         \<not> snd (last (calls (snd (Resource_Delete client reqState resp s))))"
proof -
  let ?id = "ValueString (ID (getValue reqState))"
  obtain r1 w1 where c1: "JobExists client ?id (world s) = (r1, w1)" by force
  obtain r2 w2 where c2: "DeleteJob client ?id w1 = (r2, w2)" by force
  from assms c1 c2 show ?thesis
    by (cases r1; cases r2)
       (auto simp: Resource_Delete_def Let_def invoke_def new_calls_def addError_simps
          HasError_AddError split: if_splits)
qed

text \<open>
  C9: for each of \<open>Create\<close>, \<open>Read\<close>, \<open>Update\<close> and \<open>Delete\<close>, with any client: if a remote
  call of the invocation failed, then the response carries an error, its state is the
  one the response had before the invocation, and the failed call is the last call
  made. Hence a response whose state was written or removed comes from an invocation
  all of whose remote calls succeeded.
\<close>

theorem failed_call_writes_nothing:
  assumes "run client now op resp s = (resp', s')"
      and "list_ex (\<lambda>e. \<not> snd e) (new_calls s s')"
  shows "HasError (Diagnostics resp') \<and> State resp' = State resp \<and> \<not> snd (last (calls s'))"
proof (cases op)
  case (Create reqPlan)
  with assms Resource_Create_failed_call[of s client now reqPlan resp] show ?thesis by simp
next
  case (Read reqState)
  with assms Resource_Read_failed_call[of s client now reqState resp] show ?thesis by simp
next
  case (Update reqPlan reqState)
  with assms Resource_Update_failed_call[of s client now reqPlan reqState resp]
  show ?thesis by simp
next
  case (Delete reqState)
  with assms Resource_Delete_failed_call[of s client reqState resp] show ?thesis by simp
qed

theorem failed_call_writes_nothing_witness:
  "run (memJenkins\<lparr>CreateJob := \<lambda>config name w. (Inl ''500'', w)\<rparr>) ''2024-06-01T12:00:00Z''
     (Create (Data [] examplePlan)) (emptyResponse None) (freshRemote []) =
     (\<lparr>Diagnostics = [ErrorDiagnostic ''Jenkins Job Creation Error''
         ''Failed to create Jenkins Pipeline job 'nightly': 500''], State = None\<rparr>,
      \<lparr>world = [], calls = [(JobExistsCall ''nightly'', True),
         (CreateJobCall (buildPipelineConfigXML ''nightly build'' ''echo hi'') ''nightly'',
          False)]\<rparr>) \<and>
   list_ex (\<lambda>e. \<not> snd e) (new_calls (freshRemote ([] :: (string \<times> string) list))
     \<lparr>world = ([] :: (string \<times> string) list), calls = [(JobExistsCall ''nightly'', True),
         (CreateJobCall (buildPipelineConfigXML ''nightly build'' ''echo hi'') ''nightly'',
          False)]\<rparr>) \<and>
   HasError [ErrorDiagnostic ''Jenkins Job Creation Error''
         ''Failed to create Jenkins Pipeline job 'nightly': 500''] \<and>
   State (emptyResponse (None :: jenkinsPipelineResourceModel option)) = None"
proof -
  let ?failing = "memJenkins\<lparr>CreateJob := \<lambda>config name w. (Inl ''500'', w)\<rparr>"
  let ?resp = "\<lparr>Diagnostics = [ErrorDiagnostic ''Jenkins Job Creation Error''
         ''Failed to create Jenkins Pipeline job 'nightly': 500''],
       State = (None :: jenkinsPipelineResourceModel option)\<rparr>"
  let ?s = "\<lparr>world = ([] :: (string \<times> string) list),
       calls = [(JobExistsCall ''nightly'', True),
         (CreateJobCall (buildPipelineConfigXML ''nightly build'' ''echo hi'') ''nightly'',
          False)]\<rparr>"
  have h1: "run ?failing ''2024-06-01T12:00:00Z'' (Create (Data [] examplePlan))
     (emptyResponse None) (freshRemote []) = (?resp, ?s)"
    by (simp add: Resource_Create_def Let_def invoke_def memJenkins_def examplePlan_def
        emptyResponse_def freshRemote_def HasError_Nil addError_def AddError_def quoted_def)
  have h2: "list_ex (\<lambda>e. \<not> snd e) (new_calls (freshRemote []) ?s)"
    by (simp add: new_calls_def freshRemote_def)
  from failed_call_writes_nothing[OF h1 h2] h1 h2
  show ?thesis by (simp add: example_simps)
qed

end
